theory Spec2Isabelle
  imports Main "HOL-Library.Multiset"
begin

section \<open>GoGuestBook: the entry lifecycle of main.go\<close>

text \<open>
  The guestbook server keeps one SQLite table \<open>entries\<close> and answers six HTTP routes.
  Each handler of main.go is embedded as a function from the request and the state of
  the world before the request to the response and the state after it. What the
  handlers obtain from outside the program (the clock, the random source, SHA-256, the
  SMTP server, the JSON decoder, net.SplitHostPort, failures of the database driver) is
  collected in the record \<open>Env\<close>; its fields are arbitrary in every theorem unless a
  hypothesis says otherwise. Strings are byte strings, as in Go: \<open>length\<close> is \<open>len\<close>.
  Response headers are not modelled.
\<close>

subsection \<open>Data\<close>

text \<open>
  struct Entry. A time is an integer number of nanoseconds since the Unix epoch, a
  time.Duration an integer number of nanoseconds. The column \<open>approved\<close> is an SQLite
  INTEGER read into an int8; the program only ever stores -1, 0 and 1 in it.
\<close>

record Entry =
  ID :: string
  Name :: string
  Email :: string
  Message :: string
  Approved :: int
  Comment :: string
  IP :: string
  CreatedAt :: int
  Code :: string

text \<open>The zero value of time.Time (January 1, year 1, 00:00 UTC), in nanoseconds.\<close>

definition zeroTime :: int where
  "zeroTime = - 62135596800 * 1000000000"

text \<open>\<open>var e Entry\<close>: every field holds the zero value of its type.\<close>

definition zeroEntry :: Entry where
  "zeroEntry = \<lparr>ID = [], Name = [], Email = [], Message = [], Approved = 0, Comment = [],
     IP = [], CreatedAt = zeroTime, Code = []\<rparr>"

record Configuration =
  DBFile :: string
  Listen :: string
  SMTPHost :: string
  SMTPPort :: string
  SMTPUser :: string
  SMTPPass :: string
  AdminEmail :: string
  URL :: string
  EntryWaitDuration :: int
  AntiSpamCode :: string

text \<open>The bytes of \<open>a-umlaut\<close> in UTF-8, for the German mail texts.\<close>

definition auml :: string where
  "auml = [CHR 0xC3, CHR 0xA4]"

definition mailEntryApprovedSubject :: string where
  "mailEntryApprovedSubject = ''G'' @ auml @ ''stebuch-Eintrag freigeschaltet''"

definition mailEntryApprovedBody :: "string \<Rightarrow> string" where
  "mailEntryApprovedBody s = ''Dein G'' @ auml @ ''stebuch-Eintrag wurde freigeschaltet: '' @ s"

definition mailEntryCommentSubject :: string where
  "mailEntryCommentSubject = ''G'' @ auml @ ''stebuch-Eintrag kommentiert''"

definition mailEntryCommentBody :: "string \<Rightarrow> string" where
  "mailEntryCommentBody s = ''Dein G'' @ auml @ ''stebuch-Eintrag wurde kommentiert: '' @ s"

definition mailAdminEntryAddedSubject :: string where
  "mailAdminEntryAddedSubject = ''Neuer G'' @ auml @ ''stebuch-Eintrag''"

definition mailAdminEntryAddedBody :: "string \<Rightarrow> string" where
  "mailAdminEntryAddedBody s =
     ''Neuer G'' @ auml @ ''stebucheintrag, bitte pr'' @ [CHR 0xC3, CHR 0xBC]
       @ ''fen und freischalten: '' @ s"

definition nameMinLen :: nat where "nameMinLen = 3"
definition nameMaxLen :: nat where "nameMaxLen = 100"
definition emailMinLen :: nat where "emailMinLen = 6"
definition emailMaxLen :: nat where "emailMaxLen = 100"
definition messageMinLen :: nat where "messageMinLen = 10"
definition messageMaxLen :: nat where "messageMaxLen = 2000"

subsection \<open>The world around a handler\<close>

text \<open>One call of smtp.SendMail: server address, PLAIN credentials, sender, recipients, message.\<close>

record SendMailCall =
  smAddr :: string
  smAuthUser :: string
  smAuthPass :: string
  smAuthHost :: string
  smFrom :: string
  smTo :: "string list"
  smMsg :: string

text \<open>
  The table \<open>entries\<close> in insertion order, the calls of smtp.SendMail made so far and the
  lines written with log.Printf.
\<close>

record World =
  entries :: "Entry list"
  outbox :: "SendMailCall list"
  logged :: "string list"

text \<open>
  What one request gets from outside. \<open>dbFault n\<close> is the driver error of the \<open>n\<close>-th
  statement the handler runs (None: the statement is executed), \<open>rowsAffectedFault\<close>
  the error of result.RowsAffected(). \<open>smtpSendMail\<close> answers a call with nil (None) or
  an error text. \<open>dbTimestamp\<close> is CURRENT_TIMESTAMP at an insert.
\<close>

record Env =
  now :: int
  dbTimestamp :: int
  dbFault :: "nat \<Rightarrow> string option"
  rowsAffectedFault :: "string option"
  randRead :: "string + string"
  sha256Sum :: "string \<Rightarrow> string"
  smtpSendMail :: "SendMailCall \<Rightarrow> string option"
  splitHostPort :: "string \<Rightarrow> string + string \<times> string"
  jsonDecodeEntry :: "string \<Rightarrow> string + Entry"
  jsonDecodeComment :: "string \<Rightarrow> string + string"

text \<open>
  The request: the route variables of mux.Vars, the headers, the peer address and the body.
\<close>

record Request =
  Vars :: "string \<rightharpoonup> string"
  Header :: "string \<rightharpoonup> string list"
  RemoteAddr :: string
  Body :: string

text \<open>Indexing a Go map of strings: a missing key reads as the empty string.\<close>

definition mapIndex :: "(string \<rightharpoonup> string) \<Rightarrow> string \<Rightarrow> string" where
  "mapIndex m k = (case m k of None \<Rightarrow> [] | Some v \<Rightarrow> v)"

text \<open>http.Header.Get: the first value of the key, the empty string when there is none.\<close>

definition headerGet :: "(string \<rightharpoonup> string list) \<Rightarrow> string \<Rightarrow> string" where
  "headerGet h k = (case h k of None \<Rightarrow> [] | Some [] \<Rightarrow> [] | Some (v # vs) \<Rightarrow> v)"

text \<open>
  What encoding/json writes. An Entry is written with the keys of its json tags; the
  field IP has the tag \<open>-\<close> and is never written.
\<close>

datatype json = JNull | JBool bool | JInt int | JStr string | JTime int
  | JArr "json list" | JObj "(string \<times> json) list"

definition entryJSON :: "Entry \<Rightarrow> json" where
  "entryJSON e = JObj [(''id'', JStr (ID e)), (''name'', JStr (Name e)),
     (''email'', JStr (Email e)), (''message'', JStr (Message e)),
     (''approved'', JInt (Approved e)), (''comment'', JStr (Comment e)),
     (''created_at'', JTime (CreatedAt e)), (''code'', JStr (Code e))]"

text \<open>A nil slice is encoded as null, any other slice as an array.\<close>

definition entriesJSON :: "Entry list \<Rightarrow> json" where
  "entriesJSON es = (if es = [] then JNull else JArr (map entryJSON es))"

text \<open>
  The response: the status code and what was written to the body, in order. http.Error
  writes its message as one line, json.Encoder.Encode one JSON value.
\<close>

datatype chunk = Line string | Json json

record Response =
  status :: nat
  body :: "chunk list"

definition httpError :: "string \<Rightarrow> nat \<Rightarrow> Response" where
  "httpError msg code = \<lparr>status = code, body = [Line msg]\<rparr>"

definition errorTag :: "nat \<Rightarrow> string \<Rightarrow> Response" where
  "errorTag code tag = \<lparr>status = code, body = [Line [], Json (JObj [(''error'', JStr tag)])]\<rparr>"

definition StatusBadRequest :: nat where "StatusBadRequest = 400"
definition StatusNotFound :: nat where "StatusNotFound = 404"
definition StatusTooManyRequests :: nat where "StatusTooManyRequests = 429"
definition StatusInternalServerError :: nat where "StatusInternalServerError = 500"
definition StatusOK :: nat where "StatusOK = 200"
definition StatusCreated :: nat where "StatusCreated = 201"
definition StatusNoContent :: nat where "StatusNoContent = 204"

subsection \<open>The table\<close>

text \<open>
  The errors of database/sql: sql.ErrNoRows, or an error of the driver with its text.
\<close>

datatype dberror = ErrNoRows | ErrDriver string

fun errorText :: "dberror \<Rightarrow> string" where
  "errorText ErrNoRows = ''sql: no rows in result set''"
| "errorText (ErrDriver msg) = msg"

text \<open>A statement that the driver fails is not executed.\<close>

definition dbCall :: "Env \<Rightarrow> nat \<Rightarrow> dberror + 'a \<Rightarrow> dberror + 'a" where
  "dbCall env n r = (case dbFault env n of Some msg \<Rightarrow> Inl (ErrDriver msg) | None \<Rightarrow> r)"

text \<open>db.Get: the first row of the result, sql.ErrNoRows when the result is empty.\<close>

definition firstRow :: "Entry list \<Rightarrow> dberror + Entry" where
  "firstRow rs = (case rs of [] \<Rightarrow> Inl ErrNoRows | r # _ \<Rightarrow> Inr r)"

text \<open>ORDER BY created_at DESC.\<close>

definition orderByCreatedAtDesc :: "Entry list \<Rightarrow> Entry list" where
  "orderByCreatedAtDesc rs = sort_key (\<lambda>e. - CreatedAt e) rs"

text \<open>
  A row of the columns name, message, approved, comment, created_at scanned into an
  Entry: the other fields keep their zero values.
\<close>

definition scanListColumns :: "Entry \<Rightarrow> Entry" where
  "scanListColumns e = zeroEntry\<lparr>Name := Name e, Message := Message e, Approved := Approved e,
     Comment := Comment e, CreatedAt := CreatedAt e\<rparr>"

text \<open>SELECT name, message, approved, comment, created_at FROM entries WHERE approved = 1
  ORDER by created_at DESC.\<close>

definition selectApproved :: "Entry list \<Rightarrow> Entry list" where
  "selectApproved tbl =
     map scanListColumns (orderByCreatedAtDesc (filter (\<lambda>e. Approved e = 1) tbl))"

text \<open>SELECT created_at FROM entries WHERE ip = ? ORDER BY created_at DESC LIMIT 1.\<close>

definition selectLastCreatedAt :: "Entry list \<Rightarrow> string \<Rightarrow> dberror + Entry" where
  "selectLastCreatedAt tbl ip =
     firstRow (map (\<lambda>e. zeroEntry\<lparr>CreatedAt := CreatedAt e\<rparr>)
       (take 1 (orderByCreatedAtDesc (filter (\<lambda>e. IP e = ip) tbl))))"

text \<open>SELECT * FROM entries WHERE id = ?. The field Code has no column.\<close>

definition selectByID :: "Entry list \<Rightarrow> string \<Rightarrow> dberror + Entry" where
  "selectByID tbl i = firstRow (map (\<lambda>e. e\<lparr>Code := []\<rparr>) (filter (\<lambda>e. ID e = i) tbl))"

text \<open>SELECT email, approved FROM entries WHERE id = ?.\<close>

definition selectEmailApproved :: "Entry list \<Rightarrow> string \<Rightarrow> dberror + Entry" where
  "selectEmailApproved tbl i =
     firstRow (map (\<lambda>e. zeroEntry\<lparr>Email := Email e, Approved := Approved e\<rparr>)
       (filter (\<lambda>e. ID e = i) tbl))"

text \<open>SELECT email, comment FROM entries WHERE id = ?.\<close>

definition selectEmailComment :: "Entry list \<Rightarrow> string \<Rightarrow> dberror + Entry" where
  "selectEmailComment tbl i =
     firstRow (map (\<lambda>e. zeroEntry\<lparr>Email := Email e, Comment := Comment e\<rparr>)
       (filter (\<lambda>e. ID e = i) tbl))"

text \<open>UPDATE entries SET approved = ? WHERE id = ?: the new table and the rows affected.\<close>

definition updateApproved :: "Entry list \<Rightarrow> int \<Rightarrow> string \<Rightarrow> Entry list \<times> nat" where
  "updateApproved tbl v i =
     (map (\<lambda>e. if ID e = i then e\<lparr>Approved := v\<rparr> else e) tbl,
      length (filter (\<lambda>e. ID e = i) tbl))"

text \<open>UPDATE entries SET comment = ? WHERE id = ?.\<close>

definition updateComment :: "Entry list \<Rightarrow> string \<Rightarrow> string \<Rightarrow> Entry list \<times> nat" where
  "updateComment tbl c i =
     (map (\<lambda>e. if ID e = i then e\<lparr>Comment := c\<rparr> else e) tbl,
      length (filter (\<lambda>e. ID e = i) tbl))"

text \<open>
  INSERT INTO entries (id, name, email, message, ip, comment) VALUES (:id, :name, :email,
  :message, :ip, ''): approved and created_at take their defaults 0 and CURRENT_TIMESTAMP;
  id is the primary key, so a second row with the same id is refused.
\<close>

definition insertEntry :: "Env \<Rightarrow> Entry list \<Rightarrow> Entry \<Rightarrow> dberror + Entry list" where
  "insertEntry env tbl e =
     (if ID e \<in> set (map ID tbl) then Inl (ErrDriver ''UNIQUE constraint failed: entries.id'')
      else Inr (tbl @ [\<lparr>ID = ID e, Name = Name e, Email = Email e, Message = Message e,
             Approved = 0, Comment = [], IP = IP e, CreatedAt = dbTimestamp env, Code = []\<rparr>]))"

text \<open>The primary key: no two rows share an id.\<close>

definition primaryKey :: "Entry list \<Rightarrow> bool" where
  "primaryKey tbl = distinct (map ID tbl)"

subsection \<open>Validation\<close>

text \<open>
  Regular expressions, as far as the pattern of isValidEmail needs them: a character
  class is a list of ranges, \<open>Times\<close> is concatenation, \<open>Star\<close> iteration. \<open>Zero\<close>,
  \<open>One\<close> and \<open>Alt\<close> arise when the matcher takes derivatives. The pattern is
  anchored at both ends (\<open>^\<close> and \<open>$\<close> with no flags), so MatchString holds exactly when
  the whole string is in the language of the expression.
\<close>

datatype regexp = Zero | One | Class "(char \<times> char) list"
  | Alt regexp regexp | Times regexp regexp | Star regexp

definition inClass :: "(char \<times> char) list \<Rightarrow> char \<Rightarrow> bool" where
  "inClass rs c =
     list_ex (\<lambda>(lo, hi). (of_char lo :: nat) \<le> of_char c \<and> (of_char c :: nat) \<le> of_char hi) rs"

fun nullable :: "regexp \<Rightarrow> bool" where
  "nullable Zero = False"
| "nullable One = True"
| "nullable (Class rs) = False"
| "nullable (Alt r s) = (nullable r \<or> nullable s)"
| "nullable (Times r s) = (nullable r \<and> nullable s)"
| "nullable (Star r) = True"

fun deriv :: "char \<Rightarrow> regexp \<Rightarrow> regexp" where
  "deriv c Zero = Zero"
| "deriv c One = Zero"
| "deriv c (Class rs) = (if inClass rs c then One else Zero)"
| "deriv c (Alt r s) = Alt (deriv c r) (deriv c s)"
| "deriv c (Times r s) =
     (if nullable r then Alt (Times (deriv c r) s) (deriv c s) else Times (deriv c r) s)"
| "deriv c (Star r) = Times (deriv c r) (Star r)"

fun MatchString :: "regexp \<Rightarrow> string \<Rightarrow> bool" where
  "MatchString r [] = nullable r"
| "MatchString r (c # cs) = MatchString (deriv c r) cs"

text \<open>
  The language of an expression, the meaning of the pattern: the matcher is proved below
  to accept exactly the strings of the language. Go matches runes and the model bytes;
  the classes of the pattern hold ASCII characters only, so a string with any other
  byte is outside the language either way.
\<close>

inductive_set starLang :: "string set \<Rightarrow> string set" for A :: "string set" where
  empty: "[] \<in> starLang A"
| append: "u \<in> A \<Longrightarrow> v \<in> starLang A \<Longrightarrow> u @ v \<in> starLang A"

fun lang :: "regexp \<Rightarrow> string set" where
  "lang Zero = {}"
| "lang One = {[]}"
| "lang (Class rs) = {[c] | c. inClass rs c}"
| "lang (Alt r s) = lang r \<union> lang s"
| "lang (Times r s) = {u @ v | u v. u \<in> lang r \<and> v \<in> lang s}"
| "lang (Star r) = starLang (lang r)"

text \<open>\<open>r+\<close> and \<open>r{2,}\<close>.\<close>

definition Plus :: "regexp \<Rightarrow> regexp" where
  "Plus r = Times r (Star r)"

definition AtLeast2 :: "regexp \<Rightarrow> regexp" where
  "AtLeast2 r = Times r (Times r (Star r))"

definition Lit :: "char \<Rightarrow> regexp" where
  "Lit c = Class [(c, c)]"

text \<open>The three classes \<open>[a-zA-Z0-9._%+-]\<close>, \<open>[a-zA-Z0-9.-]\<close> and \<open>[a-zA-Z]\<close>.\<close>

definition localClass :: "(char \<times> char) list" where
  "localClass = [(CHR ''a'', CHR ''z''), (CHR ''A'', CHR ''Z''), (CHR ''0'', CHR ''9''),
     (CHR ''.'', CHR ''.''), (CHR ''_'', CHR ''_''), (CHR ''%'', CHR ''%''),
     (CHR ''+'', CHR ''+''), (CHR ''-'', CHR ''-'')]"

definition domainClass :: "(char \<times> char) list" where
  "domainClass = [(CHR ''a'', CHR ''z''), (CHR ''A'', CHR ''Z''), (CHR ''0'', CHR ''9''),
     (CHR ''.'', CHR ''.''), (CHR ''-'', CHR ''-'')]"

definition letterClass :: "(char \<times> char) list" where
  "letterClass = [(CHR ''a'', CHR ''z''), (CHR ''A'', CHR ''Z'')]"

text \<open>\<^verbatim>\<open>^[a-zA-Z0-9._%+-]+@[a-zA-Z0-9.-]+\.[a-zA-Z]{2,}$\<close>\<close>

definition emailRegex :: regexp where
  "emailRegex =
     Times (Plus (Class localClass))
       (Times (Lit CHR ''@'')
         (Times (Plus (Class domainClass))
           (Times (Lit CHR ''.'') (AtLeast2 (Class letterClass)))))"

definition isValidEmail :: "string \<Rightarrow> bool" where
  "isValidEmail email = MatchString emailRegex email"

text \<open>validateEntry: None is the nil error, Some the text of the error returned.\<close>

definition validateEntry :: "Entry \<Rightarrow> string option" where
  "validateEntry entry =
     (if length (Name entry) < nameMinLen \<or> length (Name entry) > nameMaxLen
        then Some ''name must be between 3 and 100 characters''
      else if length (Email entry) < emailMinLen \<or> length (Email entry) > emailMaxLen
        then Some ''email must be between 6 and 100 characters''
      else if length (Message entry) < messageMinLen \<or> length (Message entry) > messageMaxLen
        then Some ''message must be between 10 and 2000 characters''
      else if \<not> isValidEmail (Email entry) then Some ''invalid email format''
      else None)"

subsection \<open>Identifiers, mail and time\<close>

definition hextable :: string where
  "hextable = ''0123456789abcdef''"

text \<open>hex.EncodeToString: two lower-case digits for every byte.\<close>

definition hexEncodeToString :: "string \<Rightarrow> string" where
  "hexEncodeToString s =
     concat (map (\<lambda>c. [hextable ! ((of_char c :: nat) div 16), hextable ! ((of_char c :: nat) mod 16)]) s)"

text \<open>generateID: \<open>randRead\<close> is the outcome of rand.Read on the 32-byte buffer.\<close>

definition generateID :: "Env \<Rightarrow> string + string" where
  "generateID env =
     (case randRead env of Inl err \<Rightarrow> Inl err
      | Inr b \<Rightarrow> Inr (hexEncodeToString (sha256Sum env b)))"

definition crlf :: string where
  "crlf = [CHR 0x0D, CHR 0x0A]"

definition dquote :: string where
  "dquote = [CHR 0x22]"

text \<open>The arguments sendEmail hands to smtp.SendMail.\<close>

definition mailCall :: "Configuration \<Rightarrow> string \<Rightarrow> string \<Rightarrow> string \<Rightarrow> SendMailCall" where
  "mailCall cfg to subject bdy =
     (let message = ''To: '' @ to @ crlf @
            ''From: '' @ AdminEmail cfg @ crlf @
            ''Subject: =?utf-8?q?'' @ subject @ ''?='' @ crlf @
            ''Content-Type: text/plain; charset='' @ dquote @ ''UTF-8'' @ dquote @ crlf @
            crlf @ bdy
      in \<lparr>smAddr = SMTPHost cfg @ '':'' @ SMTPPort cfg, smAuthUser = SMTPUser cfg,
           smAuthPass = SMTPPass cfg, smAuthHost = SMTPHost cfg, smFrom = SMTPUser cfg,
           smTo = [to], smMsg = message\<rparr>)"

text \<open>sendEmail: builds the message, calls smtp.SendMail once and returns its error.\<close>

definition sendEmail ::
  "Env \<Rightarrow> Configuration \<Rightarrow> string \<Rightarrow> string \<Rightarrow> string \<Rightarrow> World \<Rightarrow> string option \<times> World" where
  "sendEmail env cfg to subject bdy w =
     (let call = mailCall cfg to subject bdy
      in (smtpSendMail env call, w\<lparr>outbox := outbox w @ [call]\<rparr>))"

text \<open>log.Printf of a failed send: the line is written only when there is an error.\<close>

definition logSendFailure :: "string \<Rightarrow> string option \<Rightarrow> World \<Rightarrow> World" where
  "logSendFailure prefix err w =
     (case err of None \<Rightarrow> w | Some m \<Rightarrow> w\<lparr>logged := logged w @ [prefix @ m]\<rparr>)"

definition maxDuration :: int where "maxDuration = 2 ^ 63 - 1"
definition minDuration :: int where "minDuration = - (2 ^ 63)"

text \<open>
  time.Since(t) is time.Now().Sub(t): the difference, held to the range of an int64
  (Time.Sub returns the largest or smallest Duration when the difference does not fit).
\<close>

definition timeSince :: "Env \<Rightarrow> int \<Rightarrow> int" where
  "timeSince env t =
     (let d = now env - t
      in if d > maxDuration then maxDuration else if d < minDuration then minDuration else d)"

subsection \<open>The handlers\<close>

text \<open>getApprovedEntries (GET /api/entries).\<close>

definition getApprovedEntries :: "Env \<Rightarrow> Request \<Rightarrow> World \<Rightarrow> Response \<times> World" where
  "getApprovedEntries env r w =
     (case dbCall env 0 (Inr (selectApproved (entries w))) of
        Inl err \<Rightarrow> (httpError (errorText err) StatusInternalServerError, w)
      | Inr es \<Rightarrow> (\<lparr>status = StatusOK, body = [Json (entriesJSON es)]\<rparr>, w))"

text \<open>
  createEntry (POST /api/entries), lines 233 to 258: the entry passed every check and
  is stored under a fresh id, then the administrator is told.
\<close>

definition saveEntry ::
  "Env \<Rightarrow> Configuration \<Rightarrow> Entry \<Rightarrow> string \<Rightarrow> World \<Rightarrow> Response \<times> World" where
  "saveEntry env cfg entry ip w =
     (case generateID env of
        Inl err \<Rightarrow> (httpError err StatusInternalServerError, w)
      | Inr i \<Rightarrow>
          (case dbCall env 1 (insertEntry env (entries w) (entry\<lparr>ID := i, IP := ip\<rparr>)) of
             Inl err \<Rightarrow> (httpError (errorText err) StatusInternalServerError, w)
           | Inr tbl \<Rightarrow>
               (let url = URL cfg @ ''?GgbEntryID='' @ i;
                    w1 = w\<lparr>entries := tbl, logged := logged w @ [''New entry: '' @ url]\<rparr>;
                    (err, w2) = sendEmail env cfg (AdminEmail cfg) mailAdminEntryAddedSubject
                                  (mailAdminEntryAddedBody url) w1;
                    w3 = logSendFailure ''Failed to send email to admin: '' err w2
                in (\<lparr>status = StatusCreated, body = [Json (JObj [(''success'', JBool True)])]\<rparr>,
                    w3))))"

text \<open>
  Lines 210 to 218: the address is the header X-Forwarded-For, and the host part of the
  peer address when the header reads as the empty string.
\<close>

definition clientIP :: "Env \<Rightarrow> Request \<Rightarrow> string + string" where
  "clientIP env r =
     (let ip = headerGet (Header r) ''X-Forwarded-For''
      in if ip = [] then
           (case splitHostPort env (RemoteAddr r) of
              Inl err \<Rightarrow> Inl err
            | Inr (host, port) \<Rightarrow> Inr host)
         else Inr ip)"

text \<open>Lines 219 to 231: the wait between two posts from one address.\<close>

definition checkPostLimit ::
  "Env \<Rightarrow> Configuration \<Rightarrow> Entry \<Rightarrow> string \<Rightarrow> World \<Rightarrow> Response \<times> World" where
  "checkPostLimit env cfg entry ip w =
     (case dbCall env 0 (selectLastCreatedAt (entries w) ip) of
        Inr prevEntry \<Rightarrow>
          if timeSince env (CreatedAt prevEntry) < EntryWaitDuration cfg
          then (errorTag StatusTooManyRequests ''postlimit'', w)
          else saveEntry env cfg entry ip w
      | Inl ErrNoRows \<Rightarrow> saveEntry env cfg entry ip w
      | Inl (ErrDriver msg) \<Rightarrow> (httpError msg StatusInternalServerError, w))"

definition createEntry :: "Env \<Rightarrow> Configuration \<Rightarrow> Request \<Rightarrow> World \<Rightarrow> Response \<times> World" where
  "createEntry env cfg r w =
     (case jsonDecodeEntry env (Body r) of
        Inl err \<Rightarrow> (httpError err StatusBadRequest, w)
      | Inr entry \<Rightarrow>
          if Code entry \<noteq> AntiSpamCode cfg then (errorTag StatusBadRequest ''code'', w)
          else if validateEntry entry \<noteq> None then (errorTag StatusBadRequest ''validation'', w)
          else (case clientIP env r of
                  Inl err \<Rightarrow> (httpError err StatusInternalServerError, w)
                | Inr ip \<Rightarrow> checkPostLimit env cfg entry ip w))"

text \<open>getEntry (GET /api/entries/{id}).\<close>

definition getEntry :: "Env \<Rightarrow> Request \<Rightarrow> World \<Rightarrow> Response \<times> World" where
  "getEntry env r w =
     (let i = mapIndex (Vars r) ''id''
      in case dbCall env 0 (selectByID (entries w) i) of
           Inl ErrNoRows \<Rightarrow> (httpError ''Entry not found'' StatusNotFound, w)
         | Inl (ErrDriver msg) \<Rightarrow> (httpError msg StatusInternalServerError, w)
         | Inr entry \<Rightarrow> (\<lparr>status = StatusOK, body = [Json (entryJSON entry)]\<rparr>, w))"

text \<open>approveEntry (POST /api/entries/{id}/approve).\<close>

definition approveEntry :: "Env \<Rightarrow> Configuration \<Rightarrow> Request \<Rightarrow> World \<Rightarrow> Response \<times> World" where
  "approveEntry env cfg r w =
     (let i = mapIndex (Vars r) ''id''
      in case dbCall env 0 (selectEmailApproved (entries w) i) of
           Inl err \<Rightarrow> (httpError (errorText err) StatusInternalServerError, w)
         | Inr oldEntry \<Rightarrow>
             (case dbCall env 1 (Inr (updateApproved (entries w) 1 i)) of
                Inl err \<Rightarrow> (httpError (errorText err) StatusInternalServerError, w)
              | Inr (tbl, rowsAffected) \<Rightarrow>
                  (let w1 = w\<lparr>entries := tbl\<rparr>
                   in case rowsAffectedFault env of
                        Some msg \<Rightarrow> (httpError msg StatusInternalServerError, w1)
                      | None \<Rightarrow>
                          if rowsAffected = 0
                          then (httpError ''Entry not found'' StatusNotFound, w1)
                          else if Email oldEntry \<noteq> [] \<and> Approved oldEntry = 0
                          then (let (err, w2) = sendEmail env cfg (Email oldEntry)
                                       mailEntryApprovedSubject (mailEntryApprovedBody (URL cfg)) w1
                                in (\<lparr>status = StatusNoContent, body = []\<rparr>,
                                    logSendFailure ''Failed to send email to author: '' err w2))
                          else (\<lparr>status = StatusNoContent, body = []\<rparr>, w1))))"

text \<open>rejectEntry (POST /api/entries/{id}/reject).\<close>

definition rejectEntry :: "Env \<Rightarrow> Request \<Rightarrow> World \<Rightarrow> Response \<times> World" where
  "rejectEntry env r w =
     (let i = mapIndex (Vars r) ''id''
      in case dbCall env 0 (Inr (updateApproved (entries w) (- 1) i)) of
           Inl err \<Rightarrow> (httpError (errorText err) StatusInternalServerError, w)
         | Inr (tbl, rowsAffected) \<Rightarrow>
             (let w1 = w\<lparr>entries := tbl\<rparr>
              in case rowsAffectedFault env of
                   Some msg \<Rightarrow> (httpError msg StatusInternalServerError, w1)
                 | None \<Rightarrow>
                     if rowsAffected = 0
                     then (httpError ''Entry not found'' StatusNotFound, w1)
                     else (\<lparr>status = StatusNoContent, body = []\<rparr>, w1)))"

text \<open>addComment (PUT /api/entries/{id}/comment).\<close>

definition addComment :: "Env \<Rightarrow> Configuration \<Rightarrow> Request \<Rightarrow> World \<Rightarrow> Response \<times> World" where
  "addComment env cfg r w =
     (let i = mapIndex (Vars r) ''id''
      in case dbCall env 0 (selectEmailComment (entries w) i) of
           Inl err \<Rightarrow> (httpError (errorText err) StatusInternalServerError, w)
         | Inr oldEntry \<Rightarrow>
             (case jsonDecodeComment env (Body r) of
                Inl err \<Rightarrow> (httpError err StatusBadRequest, w)
              | Inr comment \<Rightarrow>
                  (case dbCall env 1 (Inr (updateComment (entries w) comment i)) of
                     Inl err \<Rightarrow> (httpError (errorText err) StatusInternalServerError, w)
                   | Inr (tbl, rowsAffected) \<Rightarrow>
                       (let w1 = w\<lparr>entries := tbl\<rparr>
                        in case rowsAffectedFault env of
                             Some msg \<Rightarrow> (httpError msg StatusInternalServerError, w1)
                           | None \<Rightarrow>
                               if rowsAffected = 0
                               then (httpError ''Entry not found'' StatusNotFound, w1)
                               else if Email oldEntry \<noteq> [] \<and> Comment oldEntry = []
                               then (let (err, w2) = sendEmail env cfg (Email oldEntry)
                                            mailEntryCommentSubject (mailEntryCommentBody (URL cfg)) w1
                                     in (\<lparr>status = StatusNoContent, body = []\<rparr>,
                                         logSendFailure ''Failed to send email to author: '' err w2))
                               else (\<lparr>status = StatusNoContent, body = []\<rparr>, w1)))))"

subsection \<open>Sample values\<close>

text \<open>A configuration, an environment in which nothing fails, and a small table.\<close>

definition sampleConfig :: Configuration where
  "sampleConfig = \<lparr>DBFile = ''ggb.db'', Listen = '':8080'', SMTPHost = ''mail.example.org'',
     SMTPPort = ''587'', SMTPUser = ''ggb'', SMTPPass = ''pw'', AdminEmail = ''admin@example.org'',
     URL = ''https://example.org/gb'', EntryWaitDuration = 60000000000, AntiSpamCode = ''4711''\<rparr>"

definition sampleSubmission :: Entry where
  "sampleSubmission = zeroEntry\<lparr>Name := ''Alice Smith'', Email := ''alice@example.com'',
     Message := ''Hello there, this is my message.'', Code := ''4711''\<rparr>"

definition sampleEnv :: Env where
  "sampleEnv = \<lparr>now = 1700000100000000000, dbTimestamp = 1700000100000000000,
     dbFault = (\<lambda>n. None), rowsAffectedFault = None,
     randRead = Inr (replicate 32 (CHR 0x2A)), sha256Sum = (\<lambda>b. [CHR 0x01, CHR 0xAB]),
     smtpSendMail = (\<lambda>c. None),
     splitHostPort = (\<lambda>s. Inr (takeWhile (\<lambda>c. c \<noteq> CHR '':'') s,
                               drop 1 (dropWhile (\<lambda>c. c \<noteq> CHR '':'') s))),
     jsonDecodeEntry = (\<lambda>b. Inr sampleSubmission), jsonDecodeComment = (\<lambda>b. Inr b)\<rparr>"

definition pendingEntry :: Entry where
  "pendingEntry = \<lparr>ID = ''aa01'', Name = ''Bob'', Email = ''bob@example.org'',
     Message = ''Greetings from Bob'', Approved = 0, Comment = [], IP = ''10.0.0.1'',
     CreatedAt = 1700000090000000000, Code = []\<rparr>"

definition approvedEntry :: Entry where
  "approvedEntry = \<lparr>ID = ''bb02'', Name = ''Carol'', Email = ''carol@example.org'',
     Message = ''Nice site, Carol'', Approved = 1, Comment = ''Thanks'', IP = ''10.0.0.2'',
     CreatedAt = 1600000000000000000, Code = []\<rparr>"

definition sampleWorld :: World where
  "sampleWorld = \<lparr>entries = [pendingEntry, approvedEntry], outbox = [], logged = []\<rparr>"

text \<open>A request for the entry \<open>i\<close> from the peer 10.0.0.7 with the body \<open>b\<close>.\<close>

definition requestFor :: "string \<Rightarrow> string \<Rightarrow> Request" where
  "requestFor i b = \<lparr>Vars = [''id'' \<mapsto> i], Header = Map.empty,
     RemoteAddr = ''10.0.0.7:51234'', Body = b\<rparr>"

text \<open>A submission that arrives with the header X-Forwarded-For set to \<open>xff\<close>.\<close>

definition submissionFrom :: "string \<Rightarrow> Request" where
  "submissionFrom xff = \<lparr>Vars = Map.empty, Header = [''X-Forwarded-For'' \<mapsto> [xff]],
     RemoteAddr = ''10.0.0.7:51234'', Body = []\<rparr>"

subsection \<open>Sequences of moderation requests\<close>

text \<open>
  An administrator's request to approve or to reject, with the environment it runs in.
  \<open>performAll\<close> runs a list of them in order, each on the world the last one left.
\<close>

datatype action = Approve Env Request | Reject Env Request

fun perform :: "Configuration \<Rightarrow> action \<Rightarrow> World \<Rightarrow> World" where
  "perform cfg (Approve env r) w = snd (approveEntry env cfg r w)"
| "perform cfg (Reject env r) w = snd (rejectEntry env r w)"

fun performAll :: "Configuration \<Rightarrow> action list \<Rightarrow> World \<Rightarrow> World" where
  "performAll cfg [] w = w"
| "performAll cfg (a # as) w = performAll cfg as (perform cfg a w)"

text \<open>
  How a row may differ after moderation requests: in the column \<open>approved\<close> only, which
  either kept its value or became 1 or -1.
\<close>

definition approvedStep :: "Entry \<Rightarrow> Entry \<Rightarrow> bool" where
  "approvedStep x y = (y = x\<lparr>Approved := Approved y\<rparr>
      \<and> (Approved y = Approved x \<or> Approved y = 1 \<or> Approved y = - 1))"

section \<open>Evaluation and lookup lemmas\<close>

lemmas sample_defs = sampleEnv_def sampleConfig_def sampleWorld_def pendingEntry_def
  approvedEntry_def requestFor_def sampleSubmission_def zeroEntry_def

lemmas handler_defs = approveEntry_def rejectEntry_def addComment_def dbCall_def
  selectEmailApproved_def selectEmailComment_def updateApproved_def updateComment_def
  firstRow_def mapIndex_def sendEmail_def logSendFailure_def Let_def
  StatusNoContent_def StatusNotFound_def StatusInternalServerError_def StatusBadRequest_def
  httpError_def

lemmas regex_defs = isValidEmail_def emailRegex_def Plus_def AtLeast2_def Lit_def localClass_def
  domainClass_def letterClass_def inClass_def

lemma logSendFailure_fields [simp]:
  "entries (logSendFailure p err w) = entries w"
  "outbox (logSendFailure p err w) = outbox w"
  by (simp_all add: logSendFailure_def split: option.splits)

lemma filter_key_unique:
  "distinct (map f xs) \<Longrightarrow> x \<in> set xs \<Longrightarrow> filter (\<lambda>y. f y = f x) xs = [x]"
proof (induction xs)
  case Nil
  then show ?case by simp
next
  case (Cons a xs)
  show ?case
  proof (cases "a = x")
    case True
    have "f x \<notin> f ` set xs"
      using Cons.prems True by simp
    then have "\<forall>y\<in>set xs. f y \<noteq> f x"
      by (metis imageI)
    then have "filter (\<lambda>y. f y = f x) xs = []"
      by (simp add: filter_empty_conv)
    with True show ?thesis by simp
  next
    case False
    with Cons show ?thesis by auto
  qed
qed

lemma filter_ID_unique:
  "primaryKey tbl \<Longrightarrow> e \<in> set tbl \<Longrightarrow> filter (\<lambda>y. ID y = ID e) tbl = [e]"
  unfolding primaryKey_def by (rule filter_key_unique)

lemma selectEmailApproved_stored:
  "primaryKey tbl \<Longrightarrow> e \<in> set tbl \<Longrightarrow>
   selectEmailApproved tbl (ID e) = Inr (zeroEntry\<lparr>Email := Email e, Approved := Approved e\<rparr>)"
  by (simp add: selectEmailApproved_def filter_ID_unique firstRow_def)

lemma selectEmailComment_stored:
  "primaryKey tbl \<Longrightarrow> e \<in> set tbl \<Longrightarrow>
   selectEmailComment tbl (ID e) = Inr (zeroEntry\<lparr>Email := Email e, Comment := Comment e\<rparr>)"
  by (simp add: selectEmailComment_def filter_ID_unique firstRow_def)

lemma updateApproved_stored:
  "primaryKey tbl \<Longrightarrow> e \<in> set tbl \<Longrightarrow>
   updateApproved tbl v (ID e) = (map (\<lambda>x. if ID x = ID e then x\<lparr>Approved := v\<rparr> else x) tbl, 1)"
  by (simp add: updateApproved_def filter_ID_unique)

lemma updateComment_stored:
  "primaryKey tbl \<Longrightarrow> e \<in> set tbl \<Longrightarrow>
   updateComment tbl c (ID e) = (map (\<lambda>x. if ID x = ID e then x\<lparr>Comment := c\<rparr> else x) tbl, 1)"
  by (simp add: updateComment_def filter_ID_unique)

lemma update_twice:
  "map (\<lambda>x. if ID x = i then x\<lparr>Approved := v\<rparr> else x)
     (map (\<lambda>x. if ID x = i then x\<lparr>Approved := v\<rparr> else x) tbl) =
   map (\<lambda>x. if ID x = i then x\<lparr>Approved := v\<rparr> else x) tbl"
  by (induction tbl) auto

lemma update_keeps_key:
  "primaryKey tbl \<Longrightarrow> primaryKey (map (\<lambda>x. if ID x = i then x\<lparr>Approved := v\<rparr> else x) tbl)"
proof -
  have eq: "map ID (map (\<lambda>x. if ID x = i then x\<lparr>Approved := v\<rparr> else x) tbl) = map ID tbl"
    by (induction tbl) auto
  show "primaryKey tbl \<Longrightarrow> ?thesis" by (simp only: primaryKey_def eq)
qed

lemma approve_sample:
  "approveEntry sampleEnv sampleConfig (requestFor ''aa01'' []) sampleWorld =
     (\<lparr>status = 204, body = []\<rparr>,
      \<lparr>entries = [pendingEntry\<lparr>Approved := 1\<rparr>, approvedEntry],
       outbox = [mailCall sampleConfig ''bob@example.org'' mailEntryApprovedSubject
                  (mailEntryApprovedBody ''https://example.org/gb'')],
       logged = []\<rparr>)"
  by (simp add: handler_defs sample_defs)

lemma sampleSubmission_valid: "validateEntry sampleSubmission = None"
  by (simp add: validateEntry_def sampleSubmission_def zeroEntry_def nameMinLen_def nameMaxLen_def
        emailMinLen_def emailMaxLen_def messageMinLen_def messageMaxLen_def regex_defs)

lemma clientIP_sample: "clientIP sampleEnv (submissionFrom ''10.0.0.1'') = Inr ''10.0.0.1''"
  by (simp add: clientIP_def submissionFrom_def headerGet_def)

section \<open>Submission\<close>

subsection \<open>The matcher and the language of the pattern\<close>

lemma nullable_lang: "nullable r \<longleftrightarrow> [] \<in> lang r"
  by (induction r) (auto intro: starLang.empty)

lemma starLang_Cons_split:
  assumes "w \<in> starLang A" and "w = c # s"
  shows "\<exists>u v. s = u @ v \<and> c # u \<in> A \<and> v \<in> starLang A"
  using assms
proof (induction arbitrary: s rule: starLang.induct)
  case empty
  then show ?case by simp
next
  case (append u v)
  show ?case
  proof (cases u)
    case Nil
    with append show ?thesis by simp
  next
    case (Cons a u')
    with append.prems have "a = c" "s = u' @ v" by simp_all
    with Cons append.hyps show ?thesis by blast
  qed
qed

lemma starLang_Cons:
  "c # s \<in> starLang A \<longleftrightarrow> (\<exists>u v. s = u @ v \<and> c # u \<in> A \<and> v \<in> starLang A)"
proof
  assume "c # s \<in> starLang A"
  then show "\<exists>u v. s = u @ v \<and> c # u \<in> A \<and> v \<in> starLang A"
    by (rule starLang_Cons_split) simp
next
  assume "\<exists>u v. s = u @ v \<and> c # u \<in> A \<and> v \<in> starLang A"
  then obtain u v where "s = u @ v" "c # u \<in> A" "v \<in> starLang A" by blast
  then show "c # s \<in> starLang A"
    using starLang.append[of "c # u" A v] by simp
qed

lemma deriv_lang: "s \<in> lang (deriv c r) \<longleftrightarrow> c # s \<in> lang r"
proof (induction r arbitrary: s)
  case (Times r1 r2)
  have "c # s \<in> lang (Times r1 r2) \<longleftrightarrow>
          ([] \<in> lang r1 \<and> c # s \<in> lang r2)
          \<or> (\<exists>u v. s = u @ v \<and> c # u \<in> lang r1 \<and> v \<in> lang r2)"
    by (auto simp: Cons_eq_append_conv)
  then show ?case
    using Times by (auto simp: nullable_lang)
next
  case (Star r)
  then show ?case by (auto simp: starLang_Cons)
qed auto

lemma MatchString_lang: "MatchString r s \<longleftrightarrow> s \<in> lang r"
  by (induction s arbitrary: r) (simp_all add: nullable_lang deriv_lang)

lemma starLang_Class: "starLang {[c] | c. inClass cs c} = {s. \<forall>x\<in>set s. inClass cs x}"
proof (rule set_eqI, rule iffI)
  fix s assume "s \<in> starLang {[c] | c. inClass cs c}"
  then show "s \<in> {s. \<forall>x\<in>set s. inClass cs x}"
    by (induction rule: starLang.induct) auto
next
  fix s assume "s \<in> {s. \<forall>x\<in>set s. inClass cs x}"
  then show "s \<in> starLang {[c] | c. inClass cs c}"
  proof (induction s)
    case Nil
    show ?case by (rule starLang.empty)
  next
    case (Cons a s)
    then have "[a] \<in> {[c] | c. inClass cs c}" "s \<in> starLang {[c] | c. inClass cs c}" by auto
    then have "[a] @ s \<in> starLang {[c] | c. inClass cs c}" by (rule starLang.append)
    then show ?case by simp
  qed
qed

lemma lang_Plus_Class: "lang (Plus (Class cs)) = {s. s \<noteq> [] \<and> (\<forall>x\<in>set s. inClass cs x)}"
proof -
  have "lang (Plus (Class cs)) = {[c] @ v | c v. inClass cs c \<and> (\<forall>x\<in>set v. inClass cs x)}"
    unfolding Plus_def lang.simps starLang_Class by blast
  also have "\<dots> = {s. s \<noteq> [] \<and> (\<forall>x\<in>set s. inClass cs x)}"
  proof (rule set_eqI, rule iffI)
    fix s assume "s \<in> {s. s \<noteq> [] \<and> (\<forall>x\<in>set s. inClass cs x)}"
    then obtain a v where "s = a # v" "\<forall>x\<in>set s. inClass cs x" by (cases s) auto
    then show "s \<in> {[c] @ v | c v. inClass cs c \<and> (\<forall>x\<in>set v. inClass cs x)}" by auto
  qed auto
  finally show ?thesis .
qed

lemma lang_AtLeast2_Class:
  "lang (AtLeast2 (Class cs)) = {s. 2 \<le> length s \<and> (\<forall>x\<in>set s. inClass cs x)}"
proof (rule set_eqI, rule iffI)
  fix s assume "s \<in> lang (AtLeast2 (Class cs))"
  then show "s \<in> {s. 2 \<le> length s \<and> (\<forall>x\<in>set s. inClass cs x)}"
    by (auto simp: AtLeast2_def starLang_Class)
next
  fix s assume "s \<in> {s. 2 \<le> length s \<and> (\<forall>x\<in>set s. inClass cs x)}"
  then obtain a b v where s: "s = a # b # v" and all: "\<forall>x\<in>set s. inClass cs x"
    by (cases s; cases "tl s") auto
  then have "[a] \<in> lang (Class cs)" "[b] \<in> lang (Class cs)" "v \<in> starLang (lang (Class cs))"
    by (simp_all add: starLang_Class)
  then have "[a] @ ([b] @ v) \<in> lang (AtLeast2 (Class cs))"
    unfolding AtLeast2_def lang.simps by blast
  with s show "s \<in> lang (AtLeast2 (Class cs))" by simp
qed

lemma lang_Lit: "lang (Lit c) = {[c]}"
  by (auto simp: Lit_def inClass_def)

lemma isValidEmail_iff:
  "isValidEmail email \<longleftrightarrow>
     (\<exists>l d t. email = l @ ''@'' @ d @ ''.'' @ t
        \<and> l \<noteq> [] \<and> (\<forall>x\<in>set l. inClass localClass x)
        \<and> d \<noteq> [] \<and> (\<forall>x\<in>set d. inClass domainClass x)
        \<and> 2 \<le> length t \<and> (\<forall>x\<in>set t. inClass letterClass x))"
proof -
  have "isValidEmail email \<longleftrightarrow> email \<in> lang emailRegex"
    by (simp add: isValidEmail_def MatchString_lang)
  also have "\<dots> \<longleftrightarrow> (\<exists>l d t. email = l @ ''@'' @ d @ ''.'' @ t
        \<and> l \<in> lang (Plus (Class localClass)) \<and> d \<in> lang (Plus (Class domainClass))
        \<and> t \<in> lang (AtLeast2 (Class letterClass)))"
    unfolding emailRegex_def lang.simps(5) lang_Lit by fastforce
  finally show ?thesis
    by (simp add: lang_Plus_Class lang_AtLeast2_Class)
qed

subsection \<open>The checks before the wait\<close>

lemma saveEntry_status:
  "status (fst (saveEntry env cfg entry ip w)) = 500 \<or> status (fst (saveEntry env cfg entry ip w)) = 201"
  by (auto simp: saveEntry_def httpError_def StatusInternalServerError_def StatusCreated_def Let_def
           split: sum.splits prod.splits)

lemma checkPostLimit_status: "status (fst (checkPostLimit env cfg entry ip w)) \<noteq> 400"
  using saveEntry_status[of env cfg entry ip w]
  by (auto simp: checkPostLimit_def httpError_def errorTag_def StatusInternalServerError_def
                 StatusTooManyRequests_def
           split: sum.splits dberror.splits)

lemma validateEntry_None:
  "validateEntry entry = None \<longleftrightarrow>
     \<not> (length (Name entry) < 3 \<or> length (Name entry) > 100
        \<or> length (Email entry) < 6 \<or> length (Email entry) > 100
        \<or> \<not> isValidEmail (Email entry)
        \<or> length (Message entry) < 10 \<or> length (Message entry) > 2000)"
  by (auto simp: validateEntry_def nameMinLen_def nameMaxLen_def emailMinLen_def emailMaxLen_def
                 messageMinLen_def messageMaxLen_def)

text \<open>
  Claim C8. A submission whose anti-spam code differs from the configured one is
  answered with status 400 and the error tag \<open>code\<close>, and the world stays as it was: no
  row is stored, no mail is sent, nothing is logged. Nothing else of the submission,
  of the table or of the environment is looked at, since the comparison comes right
  after the body is decoded.
\<close>

theorem createEntry_wrong_code:
  assumes "jsonDecodeEntry env (Body r) = Inr entry" and "Code entry \<noteq> AntiSpamCode cfg"
  shows "createEntry env cfg r w =
           (\<lparr>status = 400, body = [Line [], Json (JObj [(''error'', JStr ''code'')])]\<rparr>, w)"
  using assms by (simp add: createEntry_def errorTag_def StatusBadRequest_def)

theorem createEntry_wrong_code_witness:
  "jsonDecodeEntry sampleEnv (Body (requestFor [] [])) = Inr sampleSubmission
   \<and> Code sampleSubmission \<noteq> AntiSpamCode (sampleConfig\<lparr>AntiSpamCode := ''0815''\<rparr>)
   \<and> createEntry sampleEnv (sampleConfig\<lparr>AntiSpamCode := ''0815''\<rparr>) (requestFor [] []) sampleWorld =
           (\<lparr>status = 400, body = [Line [], Json (JObj [(''error'', JStr ''code'')])]\<rparr>, sampleWorld)"
proof -
  have d: "jsonDecodeEntry sampleEnv (Body (requestFor [] [])) = Inr sampleSubmission"
    by (simp add: sampleEnv_def)
  have c: "Code sampleSubmission \<noteq> AntiSpamCode (sampleConfig\<lparr>AntiSpamCode := ''0815''\<rparr>)"
    by (simp add: sampleSubmission_def sampleConfig_def zeroEntry_def)
  from createEntry_wrong_code[OF d c] d c show ?thesis by simp
qed

text \<open>
  Claim C7. For a submission with the right anti-spam code, the answer is status 400
  with the error tag \<open>validation\<close> and an unchanged world exactly when the name is
  shorter than 3 or longer than 100 bytes, or the email is shorter than 6 or longer than
  100 bytes or is not in the language of the pattern of isValidEmail, or the message is
  shorter than 10 or longer than 2000 bytes. The answer is the same whichever rule is
  broken. (\<open>isValidEmail_iff\<close> spells the language out.)
\<close>

theorem createEntry_validation:
  assumes "jsonDecodeEntry env (Body r) = Inr entry" and "Code entry = AntiSpamCode cfg"
  shows "(fst (createEntry env cfg r w) =
            \<lparr>status = 400, body = [Line [], Json (JObj [(''error'', JStr ''validation'')])]\<rparr>
          \<and> snd (createEntry env cfg r w) = w)
         \<longleftrightarrow>
         (length (Name entry) < 3 \<or> length (Name entry) > 100
          \<or> length (Email entry) < 6 \<or> length (Email entry) > 100
          \<or> Email entry \<notin> lang emailRegex
          \<or> length (Message entry) < 10 \<or> length (Message entry) > 2000)"
proof (cases "validateEntry entry = None")
  case True
  have "status (fst (createEntry env cfg r w)) \<noteq> 400"
    using True assms checkPostLimit_status[of env cfg entry _ w]
    by (auto simp: createEntry_def httpError_def StatusInternalServerError_def split: sum.splits)
  then show ?thesis
    using True validateEntry_None[of entry] by (auto simp: isValidEmail_def MatchString_lang)
next
  case False
  then show ?thesis using assms validateEntry_None[of entry]
    by (simp add: createEntry_def errorTag_def StatusBadRequest_def isValidEmail_def
          MatchString_lang)
qed

theorem createEntry_validation_witness:
  "jsonDecodeEntry (sampleEnv\<lparr>jsonDecodeEntry := \<lambda>b. Inr (sampleSubmission\<lparr>Name := ''Al''\<rparr>)\<rparr>)
       (Body (requestFor [] [])) = Inr (sampleSubmission\<lparr>Name := ''Al''\<rparr>)
   \<and> Code (sampleSubmission\<lparr>Name := ''Al''\<rparr>) = AntiSpamCode sampleConfig
   \<and> length (Name (sampleSubmission\<lparr>Name := ''Al''\<rparr>)) < 3
   \<and> fst (createEntry (sampleEnv\<lparr>jsonDecodeEntry := \<lambda>b. Inr (sampleSubmission\<lparr>Name := ''Al''\<rparr>)\<rparr>)
            sampleConfig (requestFor [] []) sampleWorld) =
        \<lparr>status = 400, body = [Line [], Json (JObj [(''error'', JStr ''validation'')])]\<rparr>
   \<and> snd (createEntry (sampleEnv\<lparr>jsonDecodeEntry := \<lambda>b. Inr (sampleSubmission\<lparr>Name := ''Al''\<rparr>)\<rparr>)
            sampleConfig (requestFor [] []) sampleWorld) = sampleWorld"
proof -
  let ?e = "sampleSubmission\<lparr>Name := ''Al''\<rparr>"
  let ?env = "sampleEnv\<lparr>jsonDecodeEntry := \<lambda>b. Inr ?e\<rparr>"
  have d: "jsonDecodeEntry ?env (Body (requestFor [] [])) = Inr ?e" by simp
  have c: "Code ?e = AntiSpamCode sampleConfig"
    by (simp add: sampleSubmission_def sampleConfig_def zeroEntry_def)
  have n: "length (Name ?e) < 3" by simp
  from createEntry_validation[OF d c, of sampleWorld] d c n show ?thesis by simp
qed

subsection \<open>The wait between posts\<close>

lemma timeSince_less:
  "minDuration < d \<Longrightarrow> d \<le> maxDuration \<Longrightarrow> timeSince env t < d \<longleftrightarrow> now env - t < d"
  by (auto simp: timeSince_def Let_def)

lemma sorted_desc:
  "sorted_wrt (\<lambda>a b. CreatedAt b \<le> CreatedAt a) (orderByCreatedAtDesc rs)"
proof -
  have "sorted (map (\<lambda>e. - CreatedAt e) (orderByCreatedAtDesc rs))"
    unfolding orderByCreatedAtDesc_def by (rule sorted_sort_key)
  then show ?thesis by (simp add: sorted_map)
qed

lemma orderByCreatedAtDesc_head:
  assumes "xs \<noteq> []"
  shows "\<exists>m rest. orderByCreatedAtDesc xs = m # rest \<and> m \<in> set xs
           \<and> (\<forall>x\<in>set xs. CreatedAt x \<le> CreatedAt m)"
proof -
  have s: "set (orderByCreatedAtDesc xs) = set xs"
    by (simp add: orderByCreatedAtDesc_def)
  with assms obtain m rest where mr: "orderByCreatedAtDesc xs = m # rest"
    by (cases "orderByCreatedAtDesc xs") auto
  have "sorted_wrt (\<lambda>a b. CreatedAt b \<le> CreatedAt a) (m # rest)"
    using sorted_desc[of xs] mr by simp
  then have "\<forall>x\<in>set (m # rest). CreatedAt x \<le> CreatedAt m"
    by auto
  with s mr show ?thesis by auto
qed

lemma selectLastCreatedAt_none:
  "\<forall>e\<in>set tbl. IP e \<noteq> ip \<Longrightarrow> selectLastCreatedAt tbl ip = Inl ErrNoRows"
  by (simp add: selectLastCreatedAt_def orderByCreatedAtDesc_def firstRow_def filter_False)

lemma selectLastCreatedAt_some:
  assumes "e \<in> set tbl" "IP e = ip"
  shows "\<exists>m\<in>set tbl. IP m = ip \<and> (\<forall>x\<in>set tbl. IP x = ip \<longrightarrow> CreatedAt x \<le> CreatedAt m)
           \<and> selectLastCreatedAt tbl ip = Inr (zeroEntry\<lparr>CreatedAt := CreatedAt m\<rparr>)"
proof -
  have "filter (\<lambda>e. IP e = ip) tbl \<noteq> []"
    using assms by (auto simp: filter_empty_conv)
  from orderByCreatedAtDesc_head[OF this] obtain m rest where
    mr: "orderByCreatedAtDesc (filter (\<lambda>e. IP e = ip) tbl) = m # rest"
    and m: "m \<in> set (filter (\<lambda>e. IP e = ip) tbl)"
    and mx: "\<forall>x\<in>set (filter (\<lambda>e. IP e = ip) tbl). CreatedAt x \<le> CreatedAt m"
    by blast
  have "selectLastCreatedAt tbl ip = Inr (zeroEntry\<lparr>CreatedAt := CreatedAt m\<rparr>)"
    by (simp add: selectLastCreatedAt_def mr firstRow_def)
  with m mx show ?thesis by auto
qed

lemma saveEntry_not_429: "status (fst (saveEntry env cfg entry ip w)) \<noteq> 429"
  using saveEntry_status[of env cfg entry ip w] by auto

lemma checkPostLimit_iff:
  assumes "dbFault env 0 = None"
  shows "fst (checkPostLimit env cfg entry ip w) = errorTag 429 ''postlimit'' \<longleftrightarrow>
         (\<exists>e\<in>set (entries w). IP e = ip
            \<and> (\<forall>x\<in>set (entries w). IP x = ip \<longrightarrow> CreatedAt x \<le> CreatedAt e)
            \<and> timeSince env (CreatedAt e) < EntryWaitDuration cfg)"
proof (cases "\<forall>e\<in>set (entries w). IP e \<noteq> ip")
  case True
  then have "checkPostLimit env cfg entry ip w = saveEntry env cfg entry ip w"
    using assms by (simp add: checkPostLimit_def dbCall_def selectLastCreatedAt_none)
  then have "status (fst (checkPostLimit env cfg entry ip w)) \<noteq> 429"
    by (simp add: saveEntry_not_429)
  then have "fst (checkPostLimit env cfg entry ip w) \<noteq> errorTag 429 ''postlimit''"
    by (auto simp: errorTag_def)
  with True show ?thesis by blast
next
  case False
  then obtain e where "e \<in> set (entries w)" "IP e = ip" by blast
  from selectLastCreatedAt_some[OF this] obtain m where
    m: "m \<in> set (entries w)" "IP m = ip"
       "\<forall>x\<in>set (entries w). IP x = ip \<longrightarrow> CreatedAt x \<le> CreatedAt m"
    and sel: "selectLastCreatedAt (entries w) ip = Inr (zeroEntry\<lparr>CreatedAt := CreatedAt m\<rparr>)"
    by blast
  have lhs: "fst (checkPostLimit env cfg entry ip w) = errorTag 429 ''postlimit'' \<longleftrightarrow>
          timeSince env (CreatedAt m) < EntryWaitDuration cfg"
  proof (cases "timeSince env (CreatedAt m) < EntryWaitDuration cfg")
    case True
    then show ?thesis using assms sel
      by (simp add: checkPostLimit_def dbCall_def StatusTooManyRequests_def)
  next
    case False
    then have "checkPostLimit env cfg entry ip w = saveEntry env cfg entry ip w"
      using assms sel by (simp add: checkPostLimit_def dbCall_def)
    then have "status (fst (checkPostLimit env cfg entry ip w)) \<noteq> 429"
      by (simp add: saveEntry_not_429)
    then have "fst (checkPostLimit env cfg entry ip w) \<noteq> errorTag 429 ''postlimit''"
      by (auto simp: errorTag_def)
    with False show ?thesis by simp
  qed
  have "(\<exists>e\<in>set (entries w). IP e = ip
            \<and> (\<forall>x\<in>set (entries w). IP x = ip \<longrightarrow> CreatedAt x \<le> CreatedAt e)
            \<and> timeSince env (CreatedAt e) < EntryWaitDuration cfg)
        \<longleftrightarrow> timeSince env (CreatedAt m) < EntryWaitDuration cfg"
  proof
    assume "\<exists>e\<in>set (entries w). IP e = ip
            \<and> (\<forall>x\<in>set (entries w). IP x = ip \<longrightarrow> CreatedAt x \<le> CreatedAt e)
            \<and> timeSince env (CreatedAt e) < EntryWaitDuration cfg"
    then obtain e' where e': "e' \<in> set (entries w)" "IP e' = ip"
       "\<forall>x\<in>set (entries w). IP x = ip \<longrightarrow> CreatedAt x \<le> CreatedAt e'"
       "timeSince env (CreatedAt e') < EntryWaitDuration cfg"
      by blast
    have "CreatedAt e' \<le> CreatedAt m" using e'(1,2) m(3) by blast
    moreover have "CreatedAt m \<le> CreatedAt e'" using e'(3) m(1,2) by blast
    ultimately have "CreatedAt e' = CreatedAt m" by simp
    with e'(4) show "timeSince env (CreatedAt m) < EntryWaitDuration cfg" by simp
  next
    assume "timeSince env (CreatedAt m) < EntryWaitDuration cfg"
    with m show "\<exists>e\<in>set (entries w). IP e = ip
            \<and> (\<forall>x\<in>set (entries w). IP x = ip \<longrightarrow> CreatedAt x \<le> CreatedAt e)
            \<and> timeSince env (CreatedAt e) < EntryWaitDuration cfg"
      by blast
  qed
  with lhs show ?thesis by simp
qed

lemma checkPostLimit_429_world:
  "fst (checkPostLimit env cfg entry ip w) = errorTag 429 ''postlimit''
   \<Longrightarrow> snd (checkPostLimit env cfg entry ip w) = w"
  using saveEntry_not_429[of env cfg entry ip w]
  by (auto simp: checkPostLimit_def errorTag_def httpError_def StatusInternalServerError_def
        split: sum.splits dberror.splits if_splits)

text \<open>
  Claim C6, as stated, fails: a submission with a wrong anti-spam code is answered with
  the tag \<open>code\<close> although its address posted ten seconds ago and the wait is sixty
  seconds, because the code and the fields are checked before the wait.
\<close>

theorem wrong_code_beats_postlimit:
  "clientIP sampleEnv (submissionFrom ''10.0.0.1'') = Inr ''10.0.0.1''
   \<and> entries sampleWorld = [pendingEntry, approvedEntry]
   \<and> IP pendingEntry = ''10.0.0.1'' \<and> IP approvedEntry = ''10.0.0.2''
   \<and> now sampleEnv - CreatedAt pendingEntry <
        EntryWaitDuration (sampleConfig\<lparr>AntiSpamCode := ''0815''\<rparr>)
   \<and> createEntry sampleEnv (sampleConfig\<lparr>AntiSpamCode := ''0815''\<rparr>)
        (submissionFrom ''10.0.0.1'') sampleWorld =
       (\<lparr>status = 400, body = [Line [], Json (JObj [(''error'', JStr ''code'')])]\<rparr>, sampleWorld)"
proof -
  have t: "entries sampleWorld = [pendingEntry, approvedEntry]"
    "IP pendingEntry = ''10.0.0.1''" "IP approvedEntry = ''10.0.0.2''"
    "now sampleEnv - CreatedAt pendingEntry <
        EntryWaitDuration (sampleConfig\<lparr>AntiSpamCode := ''0815''\<rparr>)"
    by (simp_all add: sample_defs)
  have c: "createEntry sampleEnv (sampleConfig\<lparr>AntiSpamCode := ''0815''\<rparr>)
        (submissionFrom ''10.0.0.1'') sampleWorld =
       (\<lparr>status = 400, body = [Line [], Json (JObj [(''error'', JStr ''code'')])]\<rparr>, sampleWorld)"
    by (simp add: createEntry_def errorTag_def StatusBadRequest_def sampleEnv_def
          sampleSubmission_def sampleConfig_def zeroEntry_def)
  from clientIP_sample t c show ?thesis by simp
qed

text \<open>
  Claim C6, amended. Take a submission that passed the code check and the validation and
  whose address \<open>ip\<close> was resolved, with the lookup statement executed and a wait that is
  a time.Duration above the smallest one. It is answered with status 429 and the tag
  \<open>postlimit\<close> exactly when the table holds a row of that address whose created_at is
  the latest of that address and lies less than the wait before now; the world is then
  unchanged. With no row of that address the handler goes on to store the entry. The
  address is the value of X-Forwarded-For when that is not empty, and the host part of
  the peer address otherwise.
\<close>

theorem createEntry_postlimit:
  assumes "jsonDecodeEntry env (Body r) = Inr entry" and "Code entry = AntiSpamCode cfg"
    and "validateEntry entry = None" and "clientIP env r = Inr ip" and "dbFault env 0 = None"
    and "minDuration < EntryWaitDuration cfg" and "EntryWaitDuration cfg \<le> maxDuration"
  shows "(fst (createEntry env cfg r w) =
            \<lparr>status = 429, body = [Line [], Json (JObj [(''error'', JStr ''postlimit'')])]\<rparr>
          \<longleftrightarrow>
          (\<exists>e\<in>set (entries w). IP e = ip
             \<and> (\<forall>x\<in>set (entries w). IP x = ip \<longrightarrow> CreatedAt x \<le> CreatedAt e)
             \<and> now env - CreatedAt e < EntryWaitDuration cfg))
       \<and> (fst (createEntry env cfg r w) =
            \<lparr>status = 429, body = [Line [], Json (JObj [(''error'', JStr ''postlimit'')])]\<rparr>
          \<longrightarrow> snd (createEntry env cfg r w) = w)
       \<and> ((\<forall>e\<in>set (entries w). IP e \<noteq> ip) \<longrightarrow>
            createEntry env cfg r w = saveEntry env cfg entry ip w)
       \<and> (headerGet (Header r) ''X-Forwarded-For'' \<noteq> [] \<longrightarrow>
            ip = headerGet (Header r) ''X-Forwarded-For'')
       \<and> (headerGet (Header r) ''X-Forwarded-For'' = [] \<longrightarrow>
            (\<exists>port. splitHostPort env (RemoteAddr r) = Inr (ip, port)))"
proof -
  have ce: "createEntry env cfg r w = checkPostLimit env cfg entry ip w"
    using assms(1-4) by (simp add: createEntry_def)
  have t: "timeSince env x < EntryWaitDuration cfg \<longleftrightarrow> now env - x < EntryWaitDuration cfg" for x
    using assms(6,7) by (rule timeSince_less)
  have tag: "errorTag 429 ''postlimit'' =
      \<lparr>status = 429, body = [Line [], Json (JObj [(''error'', JStr ''postlimit'')])]\<rparr>"
    by (simp add: errorTag_def)
  have p1: "fst (createEntry env cfg r w) =
            \<lparr>status = 429, body = [Line [], Json (JObj [(''error'', JStr ''postlimit'')])]\<rparr>
          \<longleftrightarrow>
          (\<exists>e\<in>set (entries w). IP e = ip
             \<and> (\<forall>x\<in>set (entries w). IP x = ip \<longrightarrow> CreatedAt x \<le> CreatedAt e)
             \<and> now env - CreatedAt e < EntryWaitDuration cfg)"
    using checkPostLimit_iff[OF assms(5), of cfg entry ip w] by (simp add: ce t tag)
  have p2: "fst (createEntry env cfg r w) =
            \<lparr>status = 429, body = [Line [], Json (JObj [(''error'', JStr ''postlimit'')])]\<rparr>
          \<longrightarrow> snd (createEntry env cfg r w) = w"
    using checkPostLimit_429_world[of env cfg entry ip w] by (simp add: ce tag)
  have p3: "(\<forall>e\<in>set (entries w). IP e \<noteq> ip) \<longrightarrow>
            createEntry env cfg r w = saveEntry env cfg entry ip w"
    using assms(5) by (simp add: ce checkPostLimit_def dbCall_def selectLastCreatedAt_none)
  have p4: "headerGet (Header r) ''X-Forwarded-For'' \<noteq> [] \<longrightarrow>
            ip = headerGet (Header r) ''X-Forwarded-For''"
    using assms(4) by (auto simp: clientIP_def Let_def)
  have p5: "headerGet (Header r) ''X-Forwarded-For'' = [] \<longrightarrow>
            (\<exists>port. splitHostPort env (RemoteAddr r) = Inr (ip, port))"
    using assms(4) by (auto simp: clientIP_def Let_def split: sum.splits)
  from p1 p2 p3 p4 p5 show ?thesis by blast
qed

theorem createEntry_postlimit_witness:
  "jsonDecodeEntry sampleEnv (Body (submissionFrom ''10.0.0.1'')) = Inr sampleSubmission
   \<and> Code sampleSubmission = AntiSpamCode sampleConfig
   \<and> validateEntry sampleSubmission = None
   \<and> clientIP sampleEnv (submissionFrom ''10.0.0.1'') = Inr ''10.0.0.1''
   \<and> dbFault sampleEnv 0 = None
   \<and> minDuration < EntryWaitDuration sampleConfig \<and> EntryWaitDuration sampleConfig \<le> maxDuration
   \<and> headerGet (Header (submissionFrom ''10.0.0.1'')) ''X-Forwarded-For'' \<noteq> []
   \<and> pendingEntry \<in> set (entries sampleWorld) \<and> IP pendingEntry = ''10.0.0.1''
   \<and> now sampleEnv - CreatedAt pendingEntry < EntryWaitDuration sampleConfig
   \<and> fst (createEntry sampleEnv sampleConfig (submissionFrom ''10.0.0.1'') sampleWorld) =
        \<lparr>status = 429, body = [Line [], Json (JObj [(''error'', JStr ''postlimit'')])]\<rparr>
   \<and> snd (createEntry sampleEnv sampleConfig (submissionFrom ''10.0.0.1'') sampleWorld) = sampleWorld"
proof -
  have h1: "jsonDecodeEntry sampleEnv (Body (submissionFrom ''10.0.0.1'')) = Inr sampleSubmission"
    by (simp add: sampleEnv_def)
  have h2: "Code sampleSubmission = AntiSpamCode sampleConfig"
    by (simp add: sampleSubmission_def sampleConfig_def zeroEntry_def)
  have h5: "dbFault sampleEnv 0 = None" by (simp add: sampleEnv_def)
  have h6: "minDuration < EntryWaitDuration sampleConfig"
    by (simp add: minDuration_def sampleConfig_def)
  have h7: "EntryWaitDuration sampleConfig \<le> maxDuration"
    by (simp add: maxDuration_def sampleConfig_def)
  have x: "headerGet (Header (submissionFrom ''10.0.0.1'')) ''X-Forwarded-For'' \<noteq> []"
    by (simp add: submissionFrom_def headerGet_def)
  have p: "pendingEntry \<in> set (entries sampleWorld)" "IP pendingEntry = ''10.0.0.1''"
    "now sampleEnv - CreatedAt pendingEntry < EntryWaitDuration sampleConfig"
    by (simp_all add: sample_defs)
  have last: "\<exists>e\<in>set (entries sampleWorld). IP e = ''10.0.0.1''
     \<and> (\<forall>x\<in>set (entries sampleWorld). IP x = ''10.0.0.1'' \<longrightarrow> CreatedAt x \<le> CreatedAt e)
     \<and> now sampleEnv - CreatedAt e < EntryWaitDuration sampleConfig"
    by (simp add: sample_defs)
  from createEntry_postlimit[OF h1 h2 sampleSubmission_valid clientIP_sample h5 h6 h7, of sampleWorld]
    last
  have "fst (createEntry sampleEnv sampleConfig (submissionFrom ''10.0.0.1'') sampleWorld) =
        \<lparr>status = 429, body = [Line [], Json (JObj [(''error'', JStr ''postlimit'')])]\<rparr>"
    "snd (createEntry sampleEnv sampleConfig (submissionFrom ''10.0.0.1'') sampleWorld) = sampleWorld"
    by blast+
  with h1 h2 sampleSubmission_valid clientIP_sample h5 h6 h7 x p show ?thesis by simp
qed

section \<open>Listing\<close>

lemma insort_key_map:
  "insort_key k (h x) (map h xs) = map h (insort_key (\<lambda>y. k (h y)) x xs)"
  by (induction xs) simp_all

lemma sort_key_map: "sort_key k (map h xs) = map h (sort_key (\<lambda>y. k (h y)) xs)"
  by (induction xs) (simp_all add: insort_key_map)

lemma scanListColumns_CreatedAt [simp]: "CreatedAt (scanListColumns e) = CreatedAt e"
  by (simp add: scanListColumns_def)

lemma selectApproved_sorted:
  "sorted_wrt (\<lambda>a b. CreatedAt b \<le> CreatedAt a) (selectApproved tbl)"
  using sorted_desc[of "filter (\<lambda>e. Approved e = 1) tbl"]
  by (simp add: selectApproved_def sorted_wrt_map)

lemma selectApproved_mset:
  "mset (selectApproved tbl) = mset (map scanListColumns (filter (\<lambda>e. Approved e = 1) tbl))"
  by (simp add: selectApproved_def orderByCreatedAtDesc_def)

lemma selectApproved_rows:
  assumes "x \<in> set (selectApproved tbl)"
  shows "Approved x = 1 \<and> ID x = [] \<and> IP x = [] \<and>
         entryJSON x = JObj [(''id'', JStr []), (''name'', JStr (Name x)), (''email'', JStr []),
           (''message'', JStr (Message x)), (''approved'', JInt 1), (''comment'', JStr (Comment x)),
           (''created_at'', JTime (CreatedAt x)), (''code'', JStr [])]"
proof -
  from assms obtain e where "e \<in> set tbl" "Approved e = 1" "x = scanListColumns e"
    by (auto simp: selectApproved_def orderByCreatedAtDesc_def)
  then show ?thesis
    by (simp add: scanListColumns_def zeroEntry_def entryJSON_def)
qed

lemma selectApproved_hides:
  "selectApproved (map (\<lambda>e. e\<lparr>ID := f e, IP := g e\<rparr>) tbl) = selectApproved tbl"
  by (simp add: selectApproved_def orderByCreatedAtDesc_def filter_map comp_def sort_key_map
        scanListColumns_def)

text \<open>
  Claim C3. When the query is executed, getApprovedEntries answers 200 with the rows
  of \<open>selectApproved\<close>: as a multiset they are the rows of the table with approved = 1,
  each reduced to name, message, approved, comment and created_at; they are in
  descending order of created_at; every row has approved = 1 and carries no id and no
  ip of the table: both fields hold the zero value, the JSON object has no key for the
  ip and the empty string under the key \<open>id\<close> (and under \<open>email\<close> and \<open>code\<close>). The
  answer stays the same when the ids and ips stored in the table are replaced by any
  others.
\<close>

theorem getApprovedEntries_result:
  assumes "dbFault env 0 = None"
  shows "getApprovedEntries env r w =
           (\<lparr>status = 200, body = [Json (entriesJSON (selectApproved (entries w)))]\<rparr>, w)
       \<and> mset (selectApproved (entries w)) =
           mset (map scanListColumns (filter (\<lambda>e. Approved e = 1) (entries w)))
       \<and> sorted_wrt (\<lambda>a b. CreatedAt b \<le> CreatedAt a) (selectApproved (entries w))
       \<and> (\<forall>x \<in> set (selectApproved (entries w)).
            Approved x = 1 \<and> ID x = [] \<and> IP x = [] \<and>
            entryJSON x = JObj [(''id'', JStr []), (''name'', JStr (Name x)), (''email'', JStr []),
              (''message'', JStr (Message x)), (''approved'', JInt 1),
              (''comment'', JStr (Comment x)), (''created_at'', JTime (CreatedAt x)),
              (''code'', JStr [])])
       \<and> getApprovedEntries env r (w\<lparr>entries := map (\<lambda>e. e\<lparr>ID := f e, IP := g e\<rparr>) (entries w)\<rparr>) =
           (fst (getApprovedEntries env r w),
            w\<lparr>entries := map (\<lambda>e. e\<lparr>ID := f e, IP := g e\<rparr>) (entries w)\<rparr>)"
proof -
  have "getApprovedEntries env r v =
           (\<lparr>status = 200, body = [Json (entriesJSON (selectApproved (entries v)))]\<rparr>, v)" for v
    using assms by (simp add: getApprovedEntries_def dbCall_def StatusOK_def)
  then show ?thesis
    using selectApproved_mset[of "entries w"] selectApproved_sorted[of "entries w"]
      selectApproved_rows[of _ "entries w"] selectApproved_hides[where f=f and g=g and tbl="entries w"]
    by simp
qed

theorem getApprovedEntries_result_witness:
  "dbFault sampleEnv 0 = None
   \<and> getApprovedEntries sampleEnv (requestFor [] []) sampleWorld =
       (\<lparr>status = 200,
         body = [Json (JArr [JObj [(''id'', JStr []), (''name'', JStr ''Carol''),
           (''email'', JStr []), (''message'', JStr ''Nice site, Carol''), (''approved'', JInt 1),
           (''comment'', JStr ''Thanks''), (''created_at'', JTime 1600000000000000000),
           (''code'', JStr [])]])]\<rparr>, sampleWorld)"
proof -
  have h: "dbFault sampleEnv 0 = None" by (simp add: sampleEnv_def)
  have s: "selectApproved (entries sampleWorld) = [scanListColumns approvedEntry]"
    by (simp add: selectApproved_def orderByCreatedAtDesc_def sampleWorld_def pendingEntry_def
          approvedEntry_def)
  from getApprovedEntries_result[OF h, of "requestFor [] []" sampleWorld] h show ?thesis
    by (simp add: s entriesJSON_def entryJSON_def scanListColumns_def zeroEntry_def
          approvedEntry_def)
qed

section \<open>Moderation\<close>

lemma approveEntry_healthy:
  assumes "e \<in> set (entries w)" "primaryKey (entries w)" "mapIndex (Vars r) ''id'' = ID e"
    and "dbFault env 0 = None" "dbFault env (Suc 0) = None" "rowsAffectedFault env = None"
  shows "approveEntry env cfg r w =
    (\<lparr>status = 204, body = []\<rparr>,
     if Email e \<noteq> [] \<and> Approved e = 0
     then logSendFailure ''Failed to send email to author: ''
            (smtpSendMail env (mailCall cfg (Email e) mailEntryApprovedSubject (mailEntryApprovedBody (URL cfg))))
            (w\<lparr>entries := fst (updateApproved (entries w) 1 (ID e)),
               outbox := outbox w @ [mailCall cfg (Email e) mailEntryApprovedSubject (mailEntryApprovedBody (URL cfg))]\<rparr>)
     else w\<lparr>entries := fst (updateApproved (entries w) 1 (ID e))\<rparr>)"
  using assms
  by (simp add: approveEntry_def dbCall_def selectEmailApproved_stored updateApproved_stored
        Let_def sendEmail_def StatusNoContent_def zeroEntry_def)

lemma rejectEntry_healthy:
  assumes "e \<in> set (entries w)" "primaryKey (entries w)" "mapIndex (Vars r) ''id'' = ID e"
    and "dbFault env 0 = None" "rowsAffectedFault env = None"
  shows "rejectEntry env r w =
    (\<lparr>status = 204, body = []\<rparr>,
     w\<lparr>entries := map (\<lambda>x. if ID x = ID e then x\<lparr>Approved := - 1\<rparr> else x) (entries w)\<rparr>)"
  using assms
  by (simp add: rejectEntry_def dbCall_def updateApproved_stored Let_def StatusNoContent_def)

lemma approveEntry_204:
  "status (fst (approveEntry env cfg r w)) = 204 \<Longrightarrow>
   entries (snd (approveEntry env cfg r w)) =
     map (\<lambda>e. if ID e = mapIndex (Vars r) ''id'' then e\<lparr>Approved := 1\<rparr> else e) (entries w)"
  by (auto simp: approveEntry_def dbCall_def updateApproved_def Let_def httpError_def sendEmail_def
        StatusInternalServerError_def StatusNotFound_def split: option.splits if_splits sum.splits)

lemma rejectEntry_204:
  "status (fst (rejectEntry env r w)) = 204 \<Longrightarrow>
   snd (rejectEntry env r w) =
     w\<lparr>entries := map (\<lambda>e. if ID e = mapIndex (Vars r) ''id'' then e\<lparr>Approved := - 1\<rparr> else e) (entries w)\<rparr>"
  by (auto simp: rejectEntry_def dbCall_def updateApproved_def Let_def httpError_def
        StatusInternalServerError_def StatusNotFound_def split: option.splits if_splits)

lemma addComment_204:
  "status (fst (addComment env cfg r w)) = 204 \<Longrightarrow>
   \<exists>c. jsonDecodeComment env (Body r) = Inr c \<and>
   entries (snd (addComment env cfg r w)) =
     map (\<lambda>e. if ID e = mapIndex (Vars r) ''id'' then e\<lparr>Comment := c\<rparr> else e) (entries w)"
  by (auto simp: addComment_def dbCall_def updateComment_def Let_def httpError_def sendEmail_def
        StatusInternalServerError_def StatusNotFound_def StatusBadRequest_def
        split: option.splits if_splits sum.splits)

text \<open>An id that no row has: approveEntry and addComment stop at their SELECT.\<close>

lemma approveEntry_missing:
  assumes "\<forall>e\<in>set (entries w). ID e \<noteq> mapIndex (Vars r) ''id''" and "dbFault env 0 = None"
  shows "approveEntry env cfg r w =
           (\<lparr>status = 500, body = [Line ''sql: no rows in result set'']\<rparr>, w)"
  using assms
  by (simp add: approveEntry_def dbCall_def selectEmailApproved_def firstRow_def filter_False
        httpError_def StatusInternalServerError_def)

lemma addComment_missing:
  assumes "\<forall>e\<in>set (entries w). ID e \<noteq> mapIndex (Vars r) ''id''" and "dbFault env 0 = None"
  shows "addComment env cfg r w =
           (\<lparr>status = 500, body = [Line ''sql: no rows in result set'']\<rparr>, w)"
  using assms
  by (simp add: addComment_def dbCall_def selectEmailComment_def firstRow_def filter_False
        httpError_def StatusInternalServerError_def)

lemma rejectEntry_missing:
  assumes "\<forall>e\<in>set (entries w). ID e \<noteq> mapIndex (Vars r) ''id''" and "dbFault env 0 = None"
    and "rowsAffectedFault env = None"
  shows "rejectEntry env r w = (\<lparr>status = 404, body = [Line ''Entry not found'']\<rparr>, w)"
proof -
  have "map (\<lambda>e. if ID e = mapIndex (Vars r) ''id'' then e\<lparr>Approved := - 1\<rparr> else e) (entries w) =
          entries w"
    using assms(1) by (simp add: map_idI)
  then show ?thesis
    using assms
    by (simp add: rejectEntry_def dbCall_def updateApproved_def filter_False Let_def httpError_def
          StatusNotFound_def)
qed

text \<open>
  Claim C1. The three handlers are run for the id \<open>ffff\<close>, which no row of the table
  has. rejectEntry answers 404 \<open>Entry not found\<close>; approveEntry and addComment answer 500
  with the text of sql.ErrNoRows, since their SELECT fails before the UPDATE whose row
  count would give the 404. In all three the world is unchanged.
\<close>

theorem missing_id_answers:
  "approveEntry sampleEnv sampleConfig (requestFor ''ffff'' []) sampleWorld =
     (\<lparr>status = 500, body = [Line ''sql: no rows in result set'']\<rparr>, sampleWorld)
   \<and> addComment sampleEnv sampleConfig (requestFor ''ffff'' ''Welcome'') sampleWorld =
     (\<lparr>status = 500, body = [Line ''sql: no rows in result set'']\<rparr>, sampleWorld)
   \<and> rejectEntry sampleEnv (requestFor ''ffff'' []) sampleWorld =
     (\<lparr>status = 404, body = [Line ''Entry not found'']\<rparr>, sampleWorld)"
  by (simp add: handler_defs sample_defs)

text \<open>
  Claim C10. A moderation request that is answered with 204 leaves the table as it was
  except for one column of the rows with the requested id: approveEntry sets approved
  to 1, rejectEntry sets it to -1, addComment sets comment to the decoded text. Rows with
  another id, and all other columns, are the same as before.
\<close>

theorem moderation_frame:
  "(status (fst (approveEntry env cfg r w)) = 204 \<longrightarrow>
      entries (snd (approveEntry env cfg r w)) =
        map (\<lambda>e. if ID e = mapIndex (Vars r) ''id'' then e\<lparr>Approved := 1\<rparr> else e) (entries w))
   \<and> (status (fst (rejectEntry env r w)) = 204 \<longrightarrow>
      entries (snd (rejectEntry env r w)) =
        map (\<lambda>e. if ID e = mapIndex (Vars r) ''id'' then e\<lparr>Approved := - 1\<rparr> else e) (entries w))
   \<and> (status (fst (addComment env cfg r w)) = 204 \<longrightarrow>
      (\<exists>c. jsonDecodeComment env (Body r) = Inr c \<and>
        entries (snd (addComment env cfg r w)) =
          map (\<lambda>e. if ID e = mapIndex (Vars r) ''id'' then e\<lparr>Comment := c\<rparr> else e) (entries w)))"
  using approveEntry_204[of env cfg r w] rejectEntry_204[of env r w] addComment_204[of env cfg r w]
  by simp

theorem moderation_frame_witness:
  "status (fst (approveEntry sampleEnv sampleConfig (requestFor ''aa01'' []) sampleWorld)) = 204
   \<and> status (fst (rejectEntry sampleEnv (requestFor ''aa01'' []) sampleWorld)) = 204
   \<and> status (fst (addComment sampleEnv sampleConfig (requestFor ''aa01'' ''Welcome'') sampleWorld)) = 204
   \<and> entries (snd (approveEntry sampleEnv sampleConfig (requestFor ''aa01'' []) sampleWorld)) =
        [pendingEntry\<lparr>Approved := 1\<rparr>, approvedEntry]
   \<and> entries (snd (rejectEntry sampleEnv (requestFor ''aa01'' []) sampleWorld)) =
        [pendingEntry\<lparr>Approved := - 1\<rparr>, approvedEntry]
   \<and> entries (snd (addComment sampleEnv sampleConfig (requestFor ''aa01'' ''Welcome'') sampleWorld)) =
        [pendingEntry\<lparr>Comment := ''Welcome''\<rparr>, approvedEntry]"
proof -
  have a: "status (fst (approveEntry sampleEnv sampleConfig (requestFor ''aa01'' []) sampleWorld)) = 204"
    by (simp add: handler_defs sample_defs)
  have b: "status (fst (rejectEntry sampleEnv (requestFor ''aa01'' []) sampleWorld)) = 204"
    by (simp add: handler_defs sample_defs)
  have c: "status (fst (addComment sampleEnv sampleConfig (requestFor ''aa01'' ''Welcome'') sampleWorld)) = 204"
    by (simp add: handler_defs sample_defs)
  have i: "mapIndex (Vars (requestFor ''aa01'' b)) ''id'' = ''aa01''" for b
    by (simp add: requestFor_def mapIndex_def)
  have d: "jsonDecodeComment sampleEnv (Body (requestFor ''aa01'' ''Welcome'')) = Inr ''Welcome''"
    by (simp add: sampleEnv_def requestFor_def)
  have t: "entries sampleWorld = [pendingEntry, approvedEntry]"
    "ID pendingEntry = ''aa01''" "ID approvedEntry = ''bb02''"
    by (simp_all add: sampleWorld_def pendingEntry_def approvedEntry_def)
  from moderation_frame[of sampleEnv sampleConfig "requestFor ''aa01'' []" sampleWorld] a b
  have ab: "entries (snd (approveEntry sampleEnv sampleConfig (requestFor ''aa01'' []) sampleWorld)) =
        [pendingEntry\<lparr>Approved := 1\<rparr>, approvedEntry]"
    "entries (snd (rejectEntry sampleEnv (requestFor ''aa01'' []) sampleWorld)) =
        [pendingEntry\<lparr>Approved := - 1\<rparr>, approvedEntry]"
    by (simp_all add: i t)
  from moderation_frame[of sampleEnv sampleConfig "requestFor ''aa01'' ''Welcome''" sampleWorld] c d
  have "entries (snd (addComment sampleEnv sampleConfig (requestFor ''aa01'' ''Welcome'') sampleWorld)) =
        [pendingEntry\<lparr>Comment := ''Welcome''\<rparr>, approvedEntry]"
    by (simp add: i t)
  with a b c ab show ?thesis by simp
qed

lemma approveEntry_outbox_grows_only_if:
  assumes "e \<in> set (entries w)" "primaryKey (entries w)" "mapIndex (Vars r) ''id'' = ID e"
    and "outbox (snd (approveEntry env cfg r w)) \<noteq> outbox w"
  shows "Approved e = 0 \<and> Email e \<noteq> []"
  using assms
  by (auto simp: approveEntry_def dbCall_def selectEmailApproved_stored updateApproved_stored
        Let_def sendEmail_def zeroEntry_def split: option.splits if_splits)

text \<open>
  Claim C4. For a stored entry and requests whose statements are executed, approveEntry
  sends exactly one mail, to the entry's address, when the entry was pending and has an
  address, and no mail otherwise; a second approveEntry on the result sends none.
\<close>

theorem approveEntry_notification:
  assumes "e \<in> set (entries w)" and "primaryKey (entries w)"
    and "mapIndex (Vars r) ''id'' = ID e"
    and "dbFault env 0 = None" and "dbFault env (Suc 0) = None" and "rowsAffectedFault env = None"
    and "dbFault env' 0 = None" and "dbFault env' (Suc 0) = None" and "rowsAffectedFault env' = None"
  shows "outbox (snd (approveEntry env cfg r w)) =
           outbox w @
           (if Approved e = 0 \<and> Email e \<noteq> []
            then [mailCall cfg (Email e) mailEntryApprovedSubject (mailEntryApprovedBody (URL cfg))]
            else [])
         \<and> outbox (snd (approveEntry env' cfg r (snd (approveEntry env cfg r w)))) =
             outbox (snd (approveEntry env cfg r w))"
proof -
  let ?w1 = "snd (approveEntry env cfg r w)"
  let ?e1 = "e\<lparr>Approved := 1\<rparr>"
  have first: "approveEntry env cfg r w = (\<lparr>status = 204, body = []\<rparr>,
     if Email e \<noteq> [] \<and> Approved e = 0
     then logSendFailure ''Failed to send email to author: ''
            (smtpSendMail env (mailCall cfg (Email e) mailEntryApprovedSubject (mailEntryApprovedBody (URL cfg))))
            (w\<lparr>entries := fst (updateApproved (entries w) 1 (ID e)),
               outbox := outbox w @ [mailCall cfg (Email e) mailEntryApprovedSubject (mailEntryApprovedBody (URL cfg))]\<rparr>)
     else w\<lparr>entries := fst (updateApproved (entries w) 1 (ID e))\<rparr>)"
    using assms(1-6) by (rule approveEntry_healthy)
  have tbl1: "entries ?w1 = map (\<lambda>x. if ID x = ID e then x\<lparr>Approved := 1\<rparr> else x) (entries w)"
    using assms(1,2) by (simp add: first updateApproved_stored)
  have mem: "?e1 \<in> set (entries ?w1)"
    using assms(1) unfolding tbl1 by force
  have "map ID (entries ?w1) = map ID (entries w)"
    unfolding tbl1 by (simp add: comp_def if_distrib cong: if_cong)
  then have pk: "primaryKey (entries ?w1)"
    using assms(2) by (simp add: primaryKey_def)
  have idr: "mapIndex (Vars r) ''id'' = ID ?e1"
    using assms(3) by simp
  have "approveEntry env' cfg r ?w1 = (\<lparr>status = 204, body = []\<rparr>,
          ?w1\<lparr>entries := fst (updateApproved (entries ?w1) 1 (ID ?e1))\<rparr>)"
    using approveEntry_healthy[OF mem pk idr assms(7-9), of cfg] by simp
  then have second: "outbox (snd (approveEntry env' cfg r ?w1)) = outbox ?w1"
    by simp
  have "outbox ?w1 = outbox w @
           (if Approved e = 0 \<and> Email e \<noteq> []
            then [mailCall cfg (Email e) mailEntryApprovedSubject (mailEntryApprovedBody (URL cfg))]
            else [])"
    by (simp add: first)
  with second show ?thesis by simp
qed

theorem approveEntry_notification_witness:
  "pendingEntry \<in> set (entries sampleWorld) \<and> primaryKey (entries sampleWorld)
   \<and> mapIndex (Vars (requestFor ''aa01'' [])) ''id'' = ID pendingEntry
   \<and> dbFault sampleEnv 0 = None \<and> dbFault sampleEnv (Suc 0) = None
   \<and> rowsAffectedFault sampleEnv = None
   \<and> Approved pendingEntry = 0 \<and> Email pendingEntry \<noteq> []
   \<and> outbox (snd (approveEntry sampleEnv sampleConfig (requestFor ''aa01'' []) sampleWorld)) =
       [mailCall sampleConfig ''bob@example.org'' mailEntryApprovedSubject
          (mailEntryApprovedBody ''https://example.org/gb'')]
   \<and> outbox (snd (approveEntry sampleEnv sampleConfig (requestFor ''aa01'' [])
         (snd (approveEntry sampleEnv sampleConfig (requestFor ''aa01'' []) sampleWorld)))) =
       [mailCall sampleConfig ''bob@example.org'' mailEntryApprovedSubject
          (mailEntryApprovedBody ''https://example.org/gb'')]"
proof -
  have h1: "pendingEntry \<in> set (entries sampleWorld)" by (simp add: sampleWorld_def)
  have h2: "primaryKey (entries sampleWorld)"
    by (simp add: sampleWorld_def primaryKey_def pendingEntry_def approvedEntry_def)
  have h3: "mapIndex (Vars (requestFor ''aa01'' [])) ''id'' = ID pendingEntry"
    by (simp add: requestFor_def mapIndex_def pendingEntry_def)
  have h4: "dbFault sampleEnv 0 = None" "dbFault sampleEnv (Suc 0) = None"
    "rowsAffectedFault sampleEnv = None"
    by (simp_all add: sampleEnv_def)
  have v: "Approved pendingEntry = 0" "Email pendingEntry = ''bob@example.org''"
    "outbox sampleWorld = []" "URL sampleConfig = ''https://example.org/gb''"
    by (simp_all add: pendingEntry_def sampleWorld_def sampleConfig_def)
  from approveEntry_notification[OF h1 h2 h3 h4 h4, of sampleConfig] h1 h2 h3 h4 v
  show ?thesis by simp
qed

subsection \<open>The column approved\<close>

lemma approvedStep_refl: "approvedStep x x"
  by (simp add: approvedStep_def)

lemma approvedStep_trans: "approvedStep x y \<Longrightarrow> approvedStep y z \<Longrightarrow> approvedStep x z"
  unfolding approvedStep_def
  by (metis Entry.surjective Entry.update_convs(5) Entry.select_convs(5))

lemma updateApproved_step:
  "v = 1 \<or> v = - 1 \<Longrightarrow> list_all2 approvedStep tbl (fst (updateApproved tbl v i))"
  by (induction tbl) (auto simp: updateApproved_def approvedStep_def)

lemma list_all2_approvedStep_refl: "list_all2 approvedStep tbl tbl"
  by (simp add: list_all2_refl approvedStep_refl)

lemma approveEntry_entries:
  "entries (snd (approveEntry env cfg r w)) = entries w
   \<or> entries (snd (approveEntry env cfg r w)) =
       fst (updateApproved (entries w) 1 (mapIndex (Vars r) ''id''))"
  by (auto simp: approveEntry_def dbCall_def Let_def sendEmail_def
        split: sum.splits option.splits prod.splits)

lemma rejectEntry_entries:
  "entries (snd (rejectEntry env r w)) = entries w
   \<or> entries (snd (rejectEntry env r w)) =
       fst (updateApproved (entries w) (- 1) (mapIndex (Vars r) ''id''))"
  by (auto simp: rejectEntry_def dbCall_def Let_def split: sum.splits option.splits prod.splits)

lemma perform_step: "list_all2 approvedStep (entries w) (entries (perform cfg a w))"
proof (cases a)
  case (Approve env r)
  then show ?thesis
    using approveEntry_entries[of env cfg r w] updateApproved_step[of 1 "entries w"]
      list_all2_approvedStep_refl[of "entries w"]
    by auto
next
  case (Reject env r)
  then show ?thesis
    using rejectEntry_entries[of env r w] updateApproved_step[of "- 1" "entries w"]
      list_all2_approvedStep_refl[of "entries w"]
    by auto
qed

lemma performAll_steps: "list_all2 approvedStep (entries w) (entries (performAll cfg acts w))"
proof (induction acts arbitrary: w)
  case Nil
  show ?case by (simp add: list_all2_approvedStep_refl)
next
  case (Cons a acts)
  have "list_all2 approvedStep (entries w) (entries (perform cfg a w))"
    by (rule perform_step)
  moreover have "list_all2 approvedStep (entries (perform cfg a w))
                   (entries (performAll cfg acts (perform cfg a w)))"
    by (rule Cons.IH)
  ultimately show ?case
    using list_all2_trans[of approvedStep approvedStep approvedStep] approvedStep_trans
    by fastforce
qed

text \<open>
  Claim C2, as stated, fails: rejectEntry on an approved entry is answered with 204 and
  takes approved from 1 to -1.
\<close>

theorem reject_after_approve: 
  "Approved approvedEntry = 1
   \<and> rejectEntry sampleEnv (requestFor ''bb02'' []) sampleWorld =
     (\<lparr>status = 204, body = []\<rparr>,
      \<lparr>entries = [pendingEntry, approvedEntry\<lparr>Approved := - 1\<rparr>], outbox = [], logged = []\<rparr>)"
  by (simp add: handler_defs sample_defs)

text \<open>
  Claim C2, amended. For a stored entry and requests whose statements are executed,
  approveEntry sets approved to 1 and rejectEntry sets it to -1, whatever it was before.
  Approving twice or rejecting twice leaves the table as the first request left it.
  approveEntry sends no mail for an entry that is not pending, rejectEntry never sends
  one. Over any sequence of approve and reject requests, whatever fails in them, every
  row keeps all its other columns, and its approved either keeps its value or becomes
  1 or -1: it never returns to 0.
\<close>

theorem approved_transitions:
  assumes "e \<in> set (entries w)" and "primaryKey (entries w)"
    and "mapIndex (Vars r) ''id'' = ID e"
    and "dbFault env 0 = None" and "dbFault env (Suc 0) = None" and "rowsAffectedFault env = None"
  shows "entries (snd (approveEntry env cfg r w)) =
           map (\<lambda>x. if ID x = ID e then x\<lparr>Approved := 1\<rparr> else x) (entries w)
       \<and> entries (snd (rejectEntry env r w)) =
           map (\<lambda>x. if ID x = ID e then x\<lparr>Approved := - 1\<rparr> else x) (entries w)
       \<and> entries (snd (approveEntry env cfg r (snd (approveEntry env cfg r w)))) =
           entries (snd (approveEntry env cfg r w))
       \<and> entries (snd (rejectEntry env r (snd (rejectEntry env r w)))) =
           entries (snd (rejectEntry env r w))
       \<and> (Approved e \<noteq> 0 \<longrightarrow> outbox (snd (approveEntry env cfg r w)) = outbox w)
       \<and> outbox (snd (rejectEntry env r w)) = outbox w
       \<and> list_all2 approvedStep (entries w) (entries (performAll cfg acts w))"
proof -
  let ?up = "\<lambda>v tbl. map (\<lambda>x. if ID x = ID e then x\<lparr>Approved := v\<rparr> else x) tbl"
  have a: "entries (snd (approveEntry env cfg r w)) = ?up 1 (entries w)"
    using assms by (simp add: approveEntry_healthy updateApproved_stored)
  have b: "snd (rejectEntry env r w) = w\<lparr>entries := ?up (- 1) (entries w)\<rparr>"
    using assms by (simp add: rejectEntry_healthy)
  have c: "Approved e \<noteq> 0 \<longrightarrow> outbox (snd (approveEntry env cfg r w)) = outbox w"
    using assms by (simp add: approveEntry_healthy)
  have mem: "e\<lparr>Approved := v\<rparr> \<in> set (?up v (entries w))" for v
    using assms(1) by force
  have pk: "primaryKey (?up v (entries w))" for v
    using assms(2) by (rule update_keeps_key)
  have a2: "entries (snd (approveEntry env cfg r (snd (approveEntry env cfg r w)))) =
              ?up 1 (entries (snd (approveEntry env cfg r w)))"
  proof -
    have m: "e\<lparr>Approved := 1\<rparr> \<in> set (entries (snd (approveEntry env cfg r w)))"
      using mem[of 1] a by simp
    have p: "primaryKey (entries (snd (approveEntry env cfg r w)))"
      using pk[of 1] a by simp
    have i: "mapIndex (Vars r) ''id'' = ID (e\<lparr>Approved := 1\<rparr>)"
      using assms(3) by simp
    show ?thesis
      using approveEntry_healthy[OF m p i assms(4-6), of cfg] updateApproved_stored[OF p m, of 1]
      by simp
  qed
  have b2: "entries (snd (rejectEntry env r (snd (rejectEntry env r w)))) =
              ?up (- 1) (entries (snd (rejectEntry env r w)))"
  proof -
    have m: "e\<lparr>Approved := - 1\<rparr> \<in> set (entries (snd (rejectEntry env r w)))"
      using mem[of "- 1"] b by simp
    have p: "primaryKey (entries (snd (rejectEntry env r w)))"
      using pk[of "- 1"] b by simp
    have i: "mapIndex (Vars r) ''id'' = ID (e\<lparr>Approved := - 1\<rparr>)"
      using assms(3) by simp
    show ?thesis
      using rejectEntry_healthy[OF m p i assms(4,6)] by simp
  qed
  have a3: "entries (snd (approveEntry env cfg r (snd (approveEntry env cfg r w)))) =
           entries (snd (approveEntry env cfg r w))"
    unfolding a2 unfolding a by (rule update_twice)
  have b3: "entries (snd (rejectEntry env r (snd (rejectEntry env r w)))) =
           entries (snd (rejectEntry env r w))"
    unfolding b2 unfolding b by (simp add: update_twice)
  show ?thesis
    using a b c a3 b3 performAll_steps[of w cfg acts] by simp
qed

theorem approved_transitions_witness:
  "approvedEntry \<in> set (entries sampleWorld) \<and> primaryKey (entries sampleWorld)
   \<and> mapIndex (Vars (requestFor ''bb02'' [])) ''id'' = ID approvedEntry
   \<and> dbFault sampleEnv 0 = None \<and> dbFault sampleEnv (Suc 0) = None
   \<and> rowsAffectedFault sampleEnv = None
   \<and> Approved approvedEntry = 1
   \<and> entries (snd (approveEntry sampleEnv sampleConfig (requestFor ''bb02'' []) sampleWorld)) =
       [pendingEntry, approvedEntry]
   \<and> entries (snd (rejectEntry sampleEnv (requestFor ''bb02'' []) sampleWorld)) =
       [pendingEntry, approvedEntry\<lparr>Approved := - 1\<rparr>]
   \<and> outbox (snd (approveEntry sampleEnv sampleConfig (requestFor ''bb02'' []) sampleWorld)) = []
   \<and> outbox (snd (rejectEntry sampleEnv (requestFor ''bb02'' []) sampleWorld)) = []
   \<and> list_all2 approvedStep (entries sampleWorld)
        (entries (performAll sampleConfig
           [Reject sampleEnv (requestFor ''bb02'' []),
            Approve sampleEnv (requestFor ''bb02'' []),
            Reject sampleEnv (requestFor ''aa01'' [])] sampleWorld))"
proof -
  have h1: "approvedEntry \<in> set (entries sampleWorld)" by (simp add: sampleWorld_def)
  have h2: "primaryKey (entries sampleWorld)"
    by (simp add: sampleWorld_def primaryKey_def pendingEntry_def approvedEntry_def)
  have h3: "mapIndex (Vars (requestFor ''bb02'' [])) ''id'' = ID approvedEntry"
    by (simp add: requestFor_def mapIndex_def approvedEntry_def)
  have h4: "dbFault sampleEnv 0 = None" "dbFault sampleEnv (Suc 0) = None"
    "rowsAffectedFault sampleEnv = None"
    by (simp_all add: sampleEnv_def)
  have v: "Approved approvedEntry = 1" "ID approvedEntry = ''bb02''" "ID pendingEntry = ''aa01''"
    "entries sampleWorld = [pendingEntry, approvedEntry]" "outbox sampleWorld = []"
    "approvedEntry\<lparr>Approved := 1\<rparr> = approvedEntry"
    by (simp_all add: approvedEntry_def pendingEntry_def sampleWorld_def)
  from approved_transitions[OF h1 h2 h3 h4, of sampleConfig
         "[Reject sampleEnv (requestFor ''bb02'' []), Approve sampleEnv (requestFor ''bb02'' []),
           Reject sampleEnv (requestFor ''aa01'' [])]"]
    h1 h2 h3 h4 v
  show ?thesis by simp
qed

text \<open>
  One addComment on a stored entry, with its statements executed and the body decoded:
  a mail goes to the author exactly when the stored comment was empty and the entry
  has an address.
\<close>

lemma addComment_notification:
  assumes "e \<in> set (entries w)" and "primaryKey (entries w)"
    and "mapIndex (Vars r) ''id'' = ID e" and "jsonDecodeComment env (Body r) = Inr c"
    and "dbFault env 0 = None" and "dbFault env (Suc 0) = None" and "rowsAffectedFault env = None"
  shows "fst (addComment env cfg r w) = \<lparr>status = 204, body = []\<rparr>
       \<and> entries (snd (addComment env cfg r w)) =
           map (\<lambda>x. if ID x = ID e then x\<lparr>Comment := c\<rparr> else x) (entries w)
       \<and> outbox (snd (addComment env cfg r w)) =
           outbox w @
           (if Comment e = [] \<and> Email e \<noteq> []
            then [mailCall cfg (Email e) mailEntryCommentSubject (mailEntryCommentBody (URL cfg))]
            else [])"
  using assms
  by (simp add: addComment_def dbCall_def selectEmailComment_stored updateComment_stored
        Let_def sendEmail_def StatusNoContent_def zeroEntry_def)

text \<open>
  Claim C5. addComment is run twice on a stored entry that has an address and no
  comment, first with the empty text, then with the text \<open>Welcome\<close>. The first request
  leaves the comment empty, so the second finds it empty as well: each sends a mail to
  the author, two in all.
\<close>

theorem empty_comment_notifies_again:
  "Comment pendingEntry = [] \<and> Email pendingEntry = ''bob@example.org''
   \<and> outbox (snd (addComment sampleEnv sampleConfig (requestFor ''aa01'' []) sampleWorld)) =
       [mailCall sampleConfig ''bob@example.org'' mailEntryCommentSubject
          (mailEntryCommentBody ''https://example.org/gb'')]
   \<and> outbox (snd (addComment sampleEnv sampleConfig (requestFor ''aa01'' ''Welcome'')
        (snd (addComment sampleEnv sampleConfig (requestFor ''aa01'' []) sampleWorld)))) =
       [mailCall sampleConfig ''bob@example.org'' mailEntryCommentSubject
          (mailEntryCommentBody ''https://example.org/gb''),
        mailCall sampleConfig ''bob@example.org'' mailEntryCommentSubject
          (mailEntryCommentBody ''https://example.org/gb'')]"
  by (simp add: handler_defs sample_defs)

section \<open>Failed notifications\<close>

lemma approveEntry_smtp:
  "approveEntry (env\<lparr>smtpSendMail := f\<rparr>) cfg r w =
     (fst (approveEntry (env\<lparr>smtpSendMail := \<lambda>c. None\<rparr>) cfg r w),
      if outbox (snd (approveEntry (env\<lparr>smtpSendMail := \<lambda>c. None\<rparr>) cfg r w)) = outbox w
      then snd (approveEntry (env\<lparr>smtpSendMail := \<lambda>c. None\<rparr>) cfg r w)
      else logSendFailure ''Failed to send email to author: ''
             (f (last (outbox (snd (approveEntry (env\<lparr>smtpSendMail := \<lambda>c. None\<rparr>) cfg r w)))))
             (snd (approveEntry (env\<lparr>smtpSendMail := \<lambda>c. None\<rparr>) cfg r w)))"
  by (simp add: approveEntry_def dbCall_def Let_def sendEmail_def logSendFailure_def
        split: sum.splits option.splits prod.splits)

lemma addComment_smtp:
  "addComment (env\<lparr>smtpSendMail := f\<rparr>) cfg r w =
     (fst (addComment (env\<lparr>smtpSendMail := \<lambda>c. None\<rparr>) cfg r w),
      if outbox (snd (addComment (env\<lparr>smtpSendMail := \<lambda>c. None\<rparr>) cfg r w)) = outbox w
      then snd (addComment (env\<lparr>smtpSendMail := \<lambda>c. None\<rparr>) cfg r w)
      else logSendFailure ''Failed to send email to author: ''
             (f (last (outbox (snd (addComment (env\<lparr>smtpSendMail := \<lambda>c. None\<rparr>) cfg r w)))))
             (snd (addComment (env\<lparr>smtpSendMail := \<lambda>c. None\<rparr>) cfg r w)))"
  by (simp add: addComment_def dbCall_def Let_def sendEmail_def logSendFailure_def
        split: sum.splits option.splits prod.splits)

lemma saveEntry_smtp:
  "saveEntry (env\<lparr>smtpSendMail := f\<rparr>) cfg entry ip w =
     (fst (saveEntry (env\<lparr>smtpSendMail := \<lambda>c. None\<rparr>) cfg entry ip w),
      if outbox (snd (saveEntry (env\<lparr>smtpSendMail := \<lambda>c. None\<rparr>) cfg entry ip w)) = outbox w
      then snd (saveEntry (env\<lparr>smtpSendMail := \<lambda>c. None\<rparr>) cfg entry ip w)
      else logSendFailure ''Failed to send email to admin: ''
             (f (last (outbox (snd (saveEntry (env\<lparr>smtpSendMail := \<lambda>c. None\<rparr>) cfg entry ip w)))))
             (snd (saveEntry (env\<lparr>smtpSendMail := \<lambda>c. None\<rparr>) cfg entry ip w)))"
  by (simp add: saveEntry_def generateID_def insertEntry_def dbCall_def Let_def sendEmail_def
        logSendFailure_def split: sum.splits option.splits prod.splits)

lemma checkPostLimit_smtp:
  "checkPostLimit (env\<lparr>smtpSendMail := f\<rparr>) cfg entry ip w =
     (fst (checkPostLimit (env\<lparr>smtpSendMail := \<lambda>c. None\<rparr>) cfg entry ip w),
      if outbox (snd (checkPostLimit (env\<lparr>smtpSendMail := \<lambda>c. None\<rparr>) cfg entry ip w)) = outbox w
      then snd (checkPostLimit (env\<lparr>smtpSendMail := \<lambda>c. None\<rparr>) cfg entry ip w)
      else logSendFailure ''Failed to send email to admin: ''
             (f (last (outbox (snd (checkPostLimit (env\<lparr>smtpSendMail := \<lambda>c. None\<rparr>) cfg entry ip w)))))
             (snd (checkPostLimit (env\<lparr>smtpSendMail := \<lambda>c. None\<rparr>) cfg entry ip w)))"
proof -
  let ?q = "dbCall env 0 (selectLastCreatedAt (entries w) ip)"
  have q: "dbCall (env\<lparr>smtpSendMail := h\<rparr>) 0 (selectLastCreatedAt (entries w) ip) = ?q" for h
    by (simp add: dbCall_def)
  have t: "timeSince (env\<lparr>smtpSendMail := h\<rparr>) x = timeSince env x" for h x
    by (simp add: timeSince_def)
  consider (limit) prevEntry where "?q = Inr prevEntry"
      "timeSince env (CreatedAt prevEntry) < EntryWaitDuration cfg"
    | (pass) prevEntry where "?q = Inr prevEntry"
      "\<not> timeSince env (CreatedAt prevEntry) < EntryWaitDuration cfg"
    | (first) "?q = Inl ErrNoRows"
    | (fault) msg where "?q = Inl (ErrDriver msg)"
    by (cases ?q) (metis dberror.exhaust, blast)
  then show ?thesis
  proof cases
    case limit
    then show ?thesis by (simp add: checkPostLimit_def q t)
  next
    case pass
    then have eq: "checkPostLimit (env\<lparr>smtpSendMail := h\<rparr>) cfg entry ip w =
                 saveEntry (env\<lparr>smtpSendMail := h\<rparr>) cfg entry ip w" for h
      by (simp add: checkPostLimit_def q t)
    show ?thesis unfolding eq by (rule saveEntry_smtp)
  next
    case first
    then have eq: "checkPostLimit (env\<lparr>smtpSendMail := h\<rparr>) cfg entry ip w =
                 saveEntry (env\<lparr>smtpSendMail := h\<rparr>) cfg entry ip w" for h
      by (simp add: checkPostLimit_def q)
    show ?thesis unfolding eq by (rule saveEntry_smtp)
  next
    case fault
    then show ?thesis by (simp add: checkPostLimit_def q)
  qed
qed

lemma createEntry_smtp:
  "createEntry (env\<lparr>smtpSendMail := f\<rparr>) cfg r w =
     (fst (createEntry (env\<lparr>smtpSendMail := \<lambda>c. None\<rparr>) cfg r w),
      if outbox (snd (createEntry (env\<lparr>smtpSendMail := \<lambda>c. None\<rparr>) cfg r w)) = outbox w
      then snd (createEntry (env\<lparr>smtpSendMail := \<lambda>c. None\<rparr>) cfg r w)
      else logSendFailure ''Failed to send email to admin: ''
             (f (last (outbox (snd (createEntry (env\<lparr>smtpSendMail := \<lambda>c. None\<rparr>) cfg r w)))))
             (snd (createEntry (env\<lparr>smtpSendMail := \<lambda>c. None\<rparr>) cfg r w)))"
proof -
  have ip: "clientIP (env\<lparr>smtpSendMail := h\<rparr>) r = clientIP env r" for h
    by (simp add: clientIP_def Let_def)
  consider (stop) resp where "\<And>h. createEntry (env\<lparr>smtpSendMail := h\<rparr>) cfg r w = (resp, w)"
    | (check) entry ip where "\<And>h. createEntry (env\<lparr>smtpSendMail := h\<rparr>) cfg r w =
                        checkPostLimit (env\<lparr>smtpSendMail := h\<rparr>) cfg entry ip w"
  proof (cases "jsonDecodeEntry env (Body r)")
    case (Inl err)
    then show ?thesis using that(1) by (simp add: createEntry_def)
  next
    case (Inr entry)
    show ?thesis
    proof (cases "Code entry \<noteq> AntiSpamCode cfg \<or> validateEntry entry \<noteq> None")
      case True
      show ?thesis
      proof (cases "Code entry \<noteq> AntiSpamCode cfg")
        case True
        then have "createEntry (env\<lparr>smtpSendMail := h\<rparr>) cfg r w =
                     (errorTag StatusBadRequest ''code'', w)" for h
          using Inr by (simp add: createEntry_def)
        then show ?thesis by (rule that(1))
      next
        case False
        with True have "createEntry (env\<lparr>smtpSendMail := h\<rparr>) cfg r w =
                     (errorTag StatusBadRequest ''validation'', w)" for h
          using Inr by (simp add: createEntry_def)
        then show ?thesis by (rule that(1))
      qed
    next
      case False
      show ?thesis
      proof (cases "clientIP env r")
        case (Inl err)
        then show ?thesis using Inr False that(1) by (simp add: createEntry_def ip)
      next
        case ok: (Inr a)
        then show ?thesis using Inr False that(2) by (simp add: createEntry_def ip)
      qed
    qed
  qed
  then show ?thesis
  proof cases
    case stop
    then show ?thesis by simp
  next
    case check
    show ?thesis unfolding check by (rule checkPostLimit_smtp)
  qed
qed

text \<open>
  Claim C9. Whatever smtp.SendMail answers, createEntry, approveEntry and addComment
  give the response they give when every send succeeds, and leave the world they leave
  then, except that a request that called smtp.SendMail and got an error for that call
  has logged one more line, \<open>Failed to send email to ...\<close> with the text of the error.
  The table and the calls made are therefore the same in both runs.
\<close>

theorem send_failure_not_propagated:
  "createEntry (env\<lparr>smtpSendMail := f\<rparr>) cfg r w =
     (fst (createEntry (env\<lparr>smtpSendMail := \<lambda>c. None\<rparr>) cfg r w),
      if outbox (snd (createEntry (env\<lparr>smtpSendMail := \<lambda>c. None\<rparr>) cfg r w)) = outbox w
      then snd (createEntry (env\<lparr>smtpSendMail := \<lambda>c. None\<rparr>) cfg r w)
      else logSendFailure ''Failed to send email to admin: ''
             (f (last (outbox (snd (createEntry (env\<lparr>smtpSendMail := \<lambda>c. None\<rparr>) cfg r w)))))
             (snd (createEntry (env\<lparr>smtpSendMail := \<lambda>c. None\<rparr>) cfg r w)))
   \<and> approveEntry (env\<lparr>smtpSendMail := f\<rparr>) cfg r w =
     (fst (approveEntry (env\<lparr>smtpSendMail := \<lambda>c. None\<rparr>) cfg r w),
      if outbox (snd (approveEntry (env\<lparr>smtpSendMail := \<lambda>c. None\<rparr>) cfg r w)) = outbox w
      then snd (approveEntry (env\<lparr>smtpSendMail := \<lambda>c. None\<rparr>) cfg r w)
      else logSendFailure ''Failed to send email to author: ''
             (f (last (outbox (snd (approveEntry (env\<lparr>smtpSendMail := \<lambda>c. None\<rparr>) cfg r w)))))
             (snd (approveEntry (env\<lparr>smtpSendMail := \<lambda>c. None\<rparr>) cfg r w)))
   \<and> addComment (env\<lparr>smtpSendMail := f\<rparr>) cfg r w =
     (fst (addComment (env\<lparr>smtpSendMail := \<lambda>c. None\<rparr>) cfg r w),
      if outbox (snd (addComment (env\<lparr>smtpSendMail := \<lambda>c. None\<rparr>) cfg r w)) = outbox w
      then snd (addComment (env\<lparr>smtpSendMail := \<lambda>c. None\<rparr>) cfg r w)
      else logSendFailure ''Failed to send email to author: ''
             (f (last (outbox (snd (addComment (env\<lparr>smtpSendMail := \<lambda>c. None\<rparr>) cfg r w)))))
             (snd (addComment (env\<lparr>smtpSendMail := \<lambda>c. None\<rparr>) cfg r w)))"
  using createEntry_smtp[where env=env and f=f and cfg=cfg and r=r and w=w]
    approveEntry_smtp[where env=env and f=f and cfg=cfg and r=r and w=w]
    addComment_smtp[where env=env and f=f and cfg=cfg and r=r and w=w]
  by blast

theorem send_failure_not_propagated_witness:
  "approveEntry (sampleEnv\<lparr>smtpSendMail := \<lambda>c. Some ''connection refused''\<rparr>) sampleConfig
      (requestFor ''aa01'' []) sampleWorld =
     (\<lparr>status = 204, body = []\<rparr>,
      \<lparr>entries = [pendingEntry\<lparr>Approved := 1\<rparr>, approvedEntry],
       outbox = [mailCall sampleConfig ''bob@example.org'' mailEntryApprovedSubject
                  (mailEntryApprovedBody ''https://example.org/gb'')],
       logged = [''Failed to send email to author: connection refused'']\<rparr>)"
proof -
  have ok: "sampleEnv\<lparr>smtpSendMail := \<lambda>c. None\<rparr> = sampleEnv"
    by (simp add: sampleEnv_def)
  from send_failure_not_propagated[where env=sampleEnv and f="\<lambda>c. Some ''connection refused''"
         and cfg=sampleConfig and r="requestFor ''aa01'' []" and w=sampleWorld]
  have "approveEntry (sampleEnv\<lparr>smtpSendMail := \<lambda>c. Some ''connection refused''\<rparr>) sampleConfig
      (requestFor ''aa01'' []) sampleWorld =
     (fst (approveEntry sampleEnv sampleConfig (requestFor ''aa01'' []) sampleWorld),
      if outbox (snd (approveEntry sampleEnv sampleConfig (requestFor ''aa01'' []) sampleWorld)) =
           outbox sampleWorld
      then snd (approveEntry sampleEnv sampleConfig (requestFor ''aa01'' []) sampleWorld)
      else logSendFailure ''Failed to send email to author: ''
             (Some ''connection refused'')
             (snd (approveEntry sampleEnv sampleConfig (requestFor ''aa01'' []) sampleWorld)))"
    unfolding ok by blast
  moreover have "outbox sampleWorld = []" by (simp add: sampleWorld_def)
  ultimately show ?thesis
    by (simp add: approve_sample logSendFailure_def)
qed

end
